theory Spec2Isabelle
  imports Complex_Main "HOL-Library.Signed_Division"
begin

section \<open>Ambient shadow geometry (libs/hwui/AmbientShadow.cpp)\<close>

text \<open>
  A shallow embedding of \<^verbatim>\<open>AmbientShadow::createAmbientShadow\<close> and its three helpers.

  Numbers. The C++ \<^verbatim>\<open>float\<close> and \<^verbatim>\<open>double\<close> values are modelled by \<^typ>\<open>real\<close>: every
  arithmetic operation is the exact one, so rounding, overflow to infinity and NaN are
  outside this model. The only division the source does not guard is the one of the two
  alpha values (\<^verbatim>\<open>1.0 / (1 + h * heightFactor)\<close>); where its denominator is zero HOL's
  quotient is \<open>0\<close> and the float one is infinite. \<^verbatim>\<open>int\<close> values are modelled by
  \<^typ>\<open>int\<close> (no operation of the source comes near the 32-bit range for any ray count
  that fits an array), the loop counters, which start at zero and count up, by
  \<^typ>\<open>nat\<close>, and the C++ remainder \<^verbatim>\<open>%\<close>, which truncates towards zero, by \<open>smod\<close>.

  Arrays. \<^verbatim>\<open>vertices\<close> is a pointer with its element count \<^verbatim>\<open>vertexCount\<close>; the model
  passes the list and the count as the source does, and the theorems about a call that
  reads the array assume that the count is the length of the list. Under that
  assumption every index at which the source reads \<^verbatim>\<open>vertices\<close> is below the count:
  \<open>p1\<close> and \<open>p2\<close> in the edge loop, and \<^verbatim>\<open>edgeIndex\<close> and its successor modulo the
  count after the range test of line 78.
\<close>

subsection \<open>Data model\<close>

datatype Vector2 = Vector2 (vx: real) (vy: real)

datatype Vector3 = Vector3 (x3: real) (y3: real) (z3: real)

datatype AlphaVertex = AlphaVertex (ax: real) (ay: real) (alpha: real)

datatype VertexBufferMode =
    kVertexBufferMode_OnePolyRingShadow
  | kVertexBufferMode_TwoPolyRingShadow

text \<open>
  Modelled from the spec: \<^verbatim>\<open>Vector2\<close> is declared in \<^verbatim>\<open>Vector.h\<close>, which is not among the
  sources. Its operators are the usual ones of a 2D vector: scaling by a number, sum,
  difference, Euclidean length, and \<^verbatim>\<open>normalize()\<close>, which scales by the inverse of the
  length.
\<close>

definition v2_scale :: "Vector2 \<Rightarrow> real \<Rightarrow> Vector2" where
  "v2_scale v s = Vector2 (vx v * s) (vy v * s)"

definition v2_add :: "Vector2 \<Rightarrow> Vector2 \<Rightarrow> Vector2" where
  "v2_add a b = Vector2 (vx a + vx b) (vy a + vy b)"

definition v2_sub :: "Vector2 \<Rightarrow> Vector2 \<Rightarrow> Vector2" where
  "v2_sub a b = Vector2 (vx a - vx b) (vy a - vy b)"

definition v2_length :: "Vector2 \<Rightarrow> real" where
  "v2_length v = sqrt (vx v * vx v + vy v * vy v)"

definition v2_normalize :: "Vector2 \<Rightarrow> Vector2" where
  "v2_normalize v = (let s = 1 / v2_length v in Vector2 (vx v * s) (vy v * s))"

text \<open>
  The three output parameters of \<^verbatim>\<open>calculateIntersection\<close>, passed by reference: the
  function receives their current contents and returns their contents on return.
\<close>

record Intersection =
  outEdgeIndex :: int
  outEdgeFraction :: real
  outRayDist :: real

text \<open>
  Modelled from the spec: \<^verbatim>\<open>VertexBuffer\<close> is declared outside the sources. The model
  keeps its vertex array: \<^verbatim>\<open>alloc<AlphaVertex>(n)\<close> replaces the array by \<open>n\<close> fresh
  slots, none of them written yet (\<open>None\<close>). A buffer that was never allocated is \<open>[]\<close>.
  A store through the returned pointer beyond the \<open>n\<close> slots has no defined behaviour
  in C++; the model reports it as \<open>BufferOverrun\<close>.
\<close>

type_synonym VertexBuffer = "AlphaVertex option list"

datatype error = BufferOverrun

definition alloc :: "nat \<Rightarrow> VertexBuffer" where
  "alloc n = replicate n None"

definition store :: "VertexBuffer \<Rightarrow> nat \<Rightarrow> AlphaVertex \<Rightarrow> error + VertexBuffer" where
  "store buf k v = (if k < length buf then Inr (buf[k := Some v]) else Inl BufferOverrun)"

subsection \<open>calculateRayDirections\<close>

definition calculateRayDirections :: "int \<Rightarrow> Vector2 list" where
  "calculateRayDirections rays =
     (let deltaAngle = 2 * pi / real_of_int rays
      in map (\<lambda>i. Vector2 (sin (deltaAngle * real i)) (cos (deltaAngle * real i)))
           [0..<nat rays])"

subsection \<open>calculateIntersection\<close>

text \<open>
  The body of the loop for one edge \<open>(p1, p2)\<close>: \<open>Some (t, t2)\<close> when the three nested
  tests of the source pass (the source then writes the outputs and returns), \<open>None\<close>
  when the loop goes on to the next edge.
\<close>

definition intersectEdge ::
  "real \<Rightarrow> real \<Rightarrow> real \<Rightarrow> real \<Rightarrow> real \<Rightarrow> real \<Rightarrow> real \<Rightarrow> real \<Rightarrow> (real \<times> real) option" where
  "intersectEdge startX startY dirX dirY p1x p1y p2x p2y =
     (let dv = dirX * (p1y - p2y) + dirY * p2x - dirY * p1x in
      if dv \<noteq> 0 then
        (let t = (dirX * (p1y - startY) + dirY * startX - dirY * p1x) / dv in
         if t > 0 \<and> t \<le> 1 then
           (let t2 = (p1x * (startY - p2y) + p2x * (p1y - startY) + startX * (p2y - p1y)) / dv in
            if t2 > 0 then Some (t, t2) else None)
         else None)
      else None)"

text \<open>
  The loop \<^verbatim>\<open>for (int p2 = 0; p2 < vertexCount; p2++)\<close> with its loop-carried \<open>p1\<close>;
  \<open>out\<close> is the contents of the three reference parameters on entry.
\<close>

function calculateIntersection_loop ::
  "Vector3 list \<Rightarrow> int \<Rightarrow> Vector3 \<Rightarrow> Vector2 \<Rightarrow> int \<Rightarrow> nat \<Rightarrow> Intersection \<Rightarrow> Intersection" where
  "calculateIntersection_loop vertices vertexCount start dir p1 p2 out =
     (if int p2 < vertexCount then
        (case intersectEdge (x3 start) (y3 start) (vx dir) (vy dir)
                (x3 (vertices ! nat p1)) (y3 (vertices ! nat p1))
                (x3 (vertices ! p2)) (y3 (vertices ! p2)) of
           Some (t, t2) \<Rightarrow>
             \<lparr>outEdgeIndex = p1, outEdgeFraction = t, outRayDist = t2\<rparr>
         | None \<Rightarrow>
             calculateIntersection_loop vertices vertexCount start dir (int p2) (Suc p2) out)
      else out)"
  by pat_completeness auto
termination
  by (relation "measure (\<lambda>(vertices, vertexCount, start, dir, p1, p2, out). nat (vertexCount - int p2))") auto

definition calculateIntersection ::
  "Vector3 list \<Rightarrow> int \<Rightarrow> Vector3 \<Rightarrow> Vector2 \<Rightarrow> Intersection \<Rightarrow> Intersection" where
  "calculateIntersection vertices vertexCount start dir out =
     calculateIntersection_loop vertices vertexCount start dir (vertexCount - 1) 0 out"

subsection \<open>calculateNormal\<close>

definition calculateNormal ::
  "int \<Rightarrow> int \<Rightarrow> Vector2 list \<Rightarrow> real list \<Rightarrow> Vector2 \<Rightarrow> Vector2" where
  "calculateNormal rays currentRayIndex dir rayDist normal =
     (let preIndex = (currentRayIndex - 1 + rays) smod rays;
          postIndex = (currentRayIndex + 1) smod rays;
          p1 = v2_scale (dir ! nat preIndex) (rayDist ! nat preIndex);
          p2 = v2_scale (dir ! nat postIndex) (rayDist ! nat postIndex);
          delta = v2_sub p2 p1
      in if v2_length delta \<noteq> 0
         then (let d = v2_normalize delta in Vector2 (- vy d) (vx d))
         else normal)"

subsection \<open>createAmbientShadow\<close>

text \<open>
  The body of the first loop (lines 72 to 86) for one ray: the pair of the values stored
  in \<^verbatim>\<open>rayDist[i]\<close> and \<^verbatim>\<open>rayHeight[i]\<close>. The three locals \<^verbatim>\<open>edgeIndex\<close>,
  \<^verbatim>\<open>edgeFraction\<close> and \<^verbatim>\<open>rayDistance\<close> are declared without an initialiser; \<open>uninit\<close>
  is whatever they hold when \<^verbatim>\<open>calculateIntersection\<close> is called.
\<close>

definition createAmbientShadow_ray ::
  "Vector3 list \<Rightarrow> int \<Rightarrow> Vector3 \<Rightarrow> Vector2 \<Rightarrow> Intersection \<Rightarrow> real \<times> real" where
  "createAmbientShadow_ray vertices vertexCount centroid3d d uninit =
     (let r = calculateIntersection vertices vertexCount centroid3d d uninit;
          rayDistance = outRayDist r;
          edgeFraction = outEdgeFraction r;
          edgeIndex = (if outEdgeIndex r < 0 \<or> outEdgeIndex r \<ge> vertexCount
                       then 0 else outEdgeIndex r);
          h1 = z3 (vertices ! nat edgeIndex);
          h2 = z3 (vertices ! nat ((edgeIndex + 1) smod vertexCount))
      in (rayDistance, h1 + edgeFraction * (h2 - h1)))"

text \<open>Line 108: the intersection point of ray \<open>rayIndex\<close> with the polygon.\<close>

definition intersection :: "Vector2 list \<Rightarrow> real list \<Rightarrow> Vector2 \<Rightarrow> nat \<Rightarrow> Vector2" where
  "intersection dir rayDist centroid2d rayIndex =
     v2_add (v2_scale (dir ! rayIndex) (rayDist ! rayIndex)) centroid2d"

text \<open>Line 120: the alpha of an inner-ring vertex.\<close>

definition opacity :: "real \<Rightarrow> real \<Rightarrow> real" where
  "opacity rayHeight heightFactor = 1 / (1 + rayHeight * heightFactor)"

text \<open>The two vertices that one round of the second loop stores (lines 112 to 124).\<close>

definition outerVertex ::
  "int \<Rightarrow> Vector2 list \<Rightarrow> real list \<Rightarrow> real list \<Rightarrow> Vector2 \<Rightarrow> real \<Rightarrow> real \<Rightarrow> nat \<Rightarrow> AlphaVertex" where
  "outerVertex rays dir rayDist rayHeight centroid2d heightFactor geomFactor rayIndex =
     (let normal = calculateNormal rays (int rayIndex) dir rayDist (Vector2 1 0);
          p = intersection dir rayDist centroid2d rayIndex;
          expansionDist = rayHeight ! rayIndex * heightFactor * geomFactor
      in AlphaVertex (vx p + vx normal * expansionDist) (vy p + vy normal * expansionDist) 0)"

definition innerVertex ::
  "Vector2 list \<Rightarrow> real list \<Rightarrow> real list \<Rightarrow> Vector2 \<Rightarrow> real \<Rightarrow> nat \<Rightarrow> AlphaVertex" where
  "innerVertex dir rayDist rayHeight centroid2d heightFactor rayIndex =
     (let p = intersection dir rayDist centroid2d rayIndex
      in AlphaVertex (vx p) (vy p) (opacity (rayHeight ! rayIndex) heightFactor))"

text \<open>The second loop (lines 102 to 125), from \<open>rayIndex\<close> on.\<close>

function createAmbientShadow_rings ::
  "int \<Rightarrow> Vector2 list \<Rightarrow> real list \<Rightarrow> real list \<Rightarrow> Vector2 \<Rightarrow> real \<Rightarrow> real \<Rightarrow> nat \<Rightarrow>
   VertexBuffer \<Rightarrow> error + VertexBuffer" where
  "createAmbientShadow_rings rays dir rayDist rayHeight centroid2d heightFactor geomFactor
       rayIndex shadowVertices =
     (if int rayIndex < rays then
        (case store shadowVertices rayIndex
                (outerVertex rays dir rayDist rayHeight centroid2d heightFactor geomFactor
                   rayIndex) of
           Inl e \<Rightarrow> Inl e
         | Inr b1 \<Rightarrow>
            (case store b1 (nat rays + rayIndex)
                    (innerVertex dir rayDist rayHeight centroid2d heightFactor rayIndex) of
               Inl e \<Rightarrow> Inl e
             | Inr b2 \<Rightarrow>
                 createAmbientShadow_rings rays dir rayDist rayHeight centroid2d heightFactor
                   geomFactor (Suc rayIndex) b2))
      else Inr shadowVertices)"
  by pat_completeness auto
termination
  by (relation "measure (\<lambda>(rays, dir, rayDist, rayHeight, centroid2d, heightFactor, geomFactor, rayIndex, shadowVertices). nat (rays - int rayIndex))") auto

text \<open>The third loop (lines 134 to 136), from \<open>rayIndex\<close> on.\<close>

function createAmbientShadow_umbra ::
  "int \<Rightarrow> AlphaVertex \<Rightarrow> nat \<Rightarrow> VertexBuffer \<Rightarrow> error + VertexBuffer" where
  "createAmbientShadow_umbra rays centroidXYA rayIndex shadowVertices =
     (if int rayIndex < rays then
        (case store shadowVertices (2 * nat rays + rayIndex) centroidXYA of
           Inl e \<Rightarrow> Inl e
         | Inr b \<Rightarrow> createAmbientShadow_umbra rays centroidXYA (Suc rayIndex) b)
      else Inr shadowVertices)"
  by pat_completeness auto
termination
  by (relation "measure (\<lambda>(rays, centroidXYA, rayIndex, shadowVertices). nat (rays - int rayIndex))") auto

text \<open>
  The two arrays that the first loop fills: round \<open>i\<close> writes slot \<open>i\<close> of each, from
  \<open>dir[i]\<close> and the inputs only.
\<close>

definition rayHits ::
  "int \<Rightarrow> Vector3 list \<Rightarrow> int \<Rightarrow> Vector3 \<Rightarrow> (nat \<Rightarrow> Intersection) \<Rightarrow> (real \<times> real) list" where
  "rayHits rays vertices vertexCount centroid3d uninit =
     map (\<lambda>i. createAmbientShadow_ray vertices vertexCount centroid3d
                 (calculateRayDirections rays ! i) (uninit i))
       [0..<nat rays]"

text \<open>
  \<^verbatim>\<open>SHADOW_RAY_COUNT\<close> and \<^verbatim>\<open>SHADOW_VERTEX_COUNT\<close> are macros of a header that is not among
  the sources; they are the first two parameters. \<open>uninit i\<close> is the contents of the
  three uninitialised locals in round \<open>i\<close> of the first loop. The result is the returned
  mode with the contents of \<^verbatim>\<open>shadowVertexBuffer\<close> on return.
\<close>

definition createAmbientShadow ::
  "int \<Rightarrow> nat \<Rightarrow> bool \<Rightarrow> Vector3 list \<Rightarrow> int \<Rightarrow> Vector3 \<Rightarrow> real \<Rightarrow> real \<Rightarrow> VertexBuffer \<Rightarrow>
   (nat \<Rightarrow> Intersection) \<Rightarrow> error + (VertexBufferMode \<times> VertexBuffer)" where
  "createAmbientShadow SHADOW_RAY_COUNT SHADOW_VERTEX_COUNT isCasterOpaque vertices vertexCount
       centroid3d heightFactor geomFactor shadowVertexBuffer uninit =
     (let rays = SHADOW_RAY_COUNT;
          mode = kVertexBufferMode_OnePolyRingShadow
      in if vertexCount < 3 \<or> heightFactor \<le> 0 \<or> rays \<le> 0 \<or> geomFactor \<le> 0
         then Inr (mode, shadowVertexBuffer)
         else
           (let dir = calculateRayDirections rays;
                hits = rayHits rays vertices vertexCount centroid3d uninit;
                rayDist = map fst hits;
                rayHeight = map snd hits;
                shadowVertices = alloc SHADOW_VERTEX_COUNT;
                centroid2d = Vector2 (x3 centroid3d) (y3 centroid3d)
            in case createAmbientShadow_rings rays dir rayDist rayHeight centroid2d
                      heightFactor geomFactor 0 shadowVertices of
                 Inl e \<Rightarrow> Inl e
               | Inr b \<Rightarrow>
                   if \<not> isCasterOpaque then
                     (let centroidAlpha = 1 / (1 + z3 centroid3d * heightFactor);
                          centroidXYA = AlphaVertex (vx centroid2d) (vy centroid2d) centroidAlpha
                      in case createAmbientShadow_umbra rays centroidXYA 0 b of
                           Inl e \<Rightarrow> Inl e
                         | Inr b' \<Rightarrow> Inr (kVertexBufferMode_TwoPolyRingShadow, b'))
                   else Inr (mode, b)))"

subsection \<open>Notions used to state the properties\<close>

text \<open>
  The rounds of the loop of \<^verbatim>\<open>calculateIntersection\<close>: in round \<open>p2\<close> the loop-carried
  \<open>p1\<close> is \<open>vertexCount - 1\<close> at first and the previous \<open>p2\<close> afterwards, and
  \<open>edgeHit\<close> is the outcome of the three tests in that round.
\<close>

definition edgeFrom :: "int \<Rightarrow> nat \<Rightarrow> int" where
  "edgeFrom vertexCount p2 = (if p2 = 0 then vertexCount - 1 else int p2 - 1)"

definition edgeHit ::
  "Vector3 list \<Rightarrow> int \<Rightarrow> Vector3 \<Rightarrow> Vector2 \<Rightarrow> nat \<Rightarrow> (real \<times> real) option" where
  "edgeHit vertices vertexCount start dir p2 =
     intersectEdge (x3 start) (y3 start) (vx dir) (vy dir)
       (x3 (vertices ! nat (edgeFrom vertexCount p2)))
       (y3 (vertices ! nat (edgeFrom vertexCount p2)))
       (x3 (vertices ! p2)) (y3 (vertices ! p2))"

text \<open>
  The specification's words. The edges of a polygon of \<open>n\<close> vertices in the order
  "the edge from the last vertex to the first, then each consecutive pair"; and the
  acceptance test of an edge from \<open>a\<close> to \<open>b\<close>: the system
  \<open>origin + v * direction = a + t * (b - a)\<close> has a determinant other than zero, and
  its solution has \<open>t\<close> in \<open>(0, 1]\<close> and \<open>v > 0\<close>.
\<close>

definition polygonEdges :: "nat \<Rightarrow> (nat \<times> nat) list" where
  "polygonEdges n = (n - 1, 0) # map (\<lambda>i. (i, Suc i)) [0..<n - 1]"

definition determinant :: "Vector2 \<Rightarrow> Vector3 \<Rightarrow> Vector3 \<Rightarrow> real" where
  "determinant dir a b = vx dir * (y3 a - y3 b) - vy dir * (x3 a - x3 b)"

definition solvesRay :: "Vector3 \<Rightarrow> Vector2 \<Rightarrow> Vector3 \<Rightarrow> Vector3 \<Rightarrow> real \<Rightarrow> real \<Rightarrow> bool" where
  "solvesRay origin dir a b t v \<longleftrightarrow>
     x3 origin + v * vx dir = x3 a + t * (x3 b - x3 a) \<and>
     y3 origin + v * vy dir = y3 a + t * (y3 b - y3 a)"

definition acceptsEdge :: "Vector3 \<Rightarrow> Vector2 \<Rightarrow> Vector3 \<Rightarrow> Vector3 \<Rightarrow> real \<Rightarrow> real \<Rightarrow> bool" where
  "acceptsEdge origin dir a b t v \<longleftrightarrow>
     determinant dir a b \<noteq> 0 \<and> solvesRay origin dir a b t v \<and> 0 < t \<and> t \<le> 1 \<and> 0 < v"

text \<open>The arrays \<^verbatim>\<open>rayDist\<close> and \<^verbatim>\<open>rayHeight\<close> after the first loop.\<close>

definition rayDistances ::
  "int \<Rightarrow> Vector3 list \<Rightarrow> int \<Rightarrow> Vector3 \<Rightarrow> (nat \<Rightarrow> Intersection) \<Rightarrow> real list" where
  "rayDistances rays vertices vertexCount centroid3d uninit =
     map fst (rayHits rays vertices vertexCount centroid3d uninit)"

definition rayHeights ::
  "int \<Rightarrow> Vector3 list \<Rightarrow> int \<Rightarrow> Vector3 \<Rightarrow> (nat \<Rightarrow> Intersection) \<Rightarrow> real list" where
  "rayHeights rays vertices vertexCount centroid3d uninit =
     map snd (rayHits rays vertices vertexCount centroid3d uninit)"

section \<open>Properties\<close>

subsection \<open>The edge loop\<close>

declare calculateIntersection_loop.simps [simp del]
declare createAmbientShadow_rings.simps [simp del]
declare createAmbientShadow_umbra.simps [simp del]

lemma loop_miss:
  "p1 = edgeFrom vertexCount p2 \<Longrightarrow>
   (\<forall>q. p2 \<le> q \<longrightarrow> int q < vertexCount \<longrightarrow> edgeHit vertices vertexCount start dir q = None) \<Longrightarrow>
   calculateIntersection_loop vertices vertexCount start dir p1 p2 out = out"
proof (induction vertices vertexCount start dir p1 p2 out rule: calculateIntersection_loop.induct)
  case (1 vertices vertexCount start dir p1 p2 out)
  show ?case
  proof (cases "int p2 < vertexCount")
    case False
    then show ?thesis by (subst calculateIntersection_loop.simps) simp
  next
    case True
    from "1.prems" True have none: "edgeHit vertices vertexCount start dir p2 = None" by simp
    then have none': "intersectEdge (x3 start) (y3 start) (vx dir) (vy dir)
                (x3 (vertices ! nat p1)) (y3 (vertices ! nat p1))
                (x3 (vertices ! p2)) (y3 (vertices ! p2)) = None"
      using "1.prems"(1) by (simp add: edgeHit_def)
    have "calculateIntersection_loop vertices vertexCount start dir (int p2) (Suc p2) out = out"
      using "1.IH"[OF True none'] "1.prems"(2) by (simp add: edgeFrom_def)
    then show ?thesis using True none' by (subst calculateIntersection_loop.simps) simp
  qed
qed

lemma loop_first_hit:
  "p1 = edgeFrom vertexCount p2 \<Longrightarrow> p2 \<le> k \<Longrightarrow> int k < vertexCount \<Longrightarrow>
   edgeHit vertices vertexCount start dir k = Some (t, t2) \<Longrightarrow>
   (\<forall>q. p2 \<le> q \<longrightarrow> q < k \<longrightarrow> edgeHit vertices vertexCount start dir q = None) \<Longrightarrow>
   calculateIntersection_loop vertices vertexCount start dir p1 p2 out =
     \<lparr>outEdgeIndex = edgeFrom vertexCount k, outEdgeFraction = t, outRayDist = t2\<rparr>"
proof (induction vertices vertexCount start dir p1 p2 out rule: calculateIntersection_loop.induct)
  case (1 vertices vertexCount start dir p1 p2 out)
  have lt: "int p2 < vertexCount" using "1.prems"(2,3) by simp
  show ?case
  proof (cases "p2 = k")
    case True
    then have "intersectEdge (x3 start) (y3 start) (vx dir) (vy dir)
                (x3 (vertices ! nat p1)) (y3 (vertices ! nat p1))
                (x3 (vertices ! p2)) (y3 (vertices ! p2)) = Some (t, t2)"
      using "1.prems"(1,4) by (simp add: edgeHit_def)
    then show ?thesis using lt True "1.prems"(1)
      by (subst calculateIntersection_loop.simps) simp
  next
    case False
    then have less: "p2 < k" using "1.prems"(2) by simp
    then have "edgeHit vertices vertexCount start dir p2 = None" using "1.prems"(5) by simp
    then have none': "intersectEdge (x3 start) (y3 start) (vx dir) (vy dir)
                (x3 (vertices ! nat p1)) (y3 (vertices ! nat p1))
                (x3 (vertices ! p2)) (y3 (vertices ! p2)) = None"
      using "1.prems"(1) by (simp add: edgeHit_def)
    have "calculateIntersection_loop vertices vertexCount start dir (int p2) (Suc p2) out =
       \<lparr>outEdgeIndex = edgeFrom vertexCount k, outEdgeFraction = t, outRayDist = t2\<rparr>"
      using "1.IH"[OF lt none'] less "1.prems"(3,4,5) by (simp add: edgeFrom_def)
    then show ?thesis using lt none' by (subst calculateIntersection_loop.simps) simp
  qed
qed

lemma smod_nonneg: "0 \<le> a \<Longrightarrow> 0 < b \<Longrightarrow> (a::int) smod b = a mod b"
  by (simp add: smod_int_alt_def sgn_if)

lemma intersectEdge_iff:
  "intersectEdge (x3 s) (y3 s) (vx d) (vy d) (x3 a) (y3 a) (x3 b) (y3 b) = Some (t, v)
     \<longleftrightarrow> acceptsEdge s d a b t v"
proof -
  define dv where "dv = vx d * (y3 a - y3 b) + vy d * x3 b - vy d * x3 a"
  define nt where "nt = vx d * (y3 a - y3 s) + vy d * x3 s - vy d * x3 a"
  define nv where "nv = x3 a * (y3 s - y3 b) + x3 b * (y3 a - y3 s) + x3 s * (y3 b - y3 a)"
  have det: "determinant d a b = dv"
    by (simp add: determinant_def dv_def algebra_simps)
  have code: "intersectEdge (x3 s) (y3 s) (vx d) (vy d) (x3 a) (y3 a) (x3 b) (y3 b) = Some (t, v)
     \<longleftrightarrow> dv \<noteq> 0 \<and> t = nt / dv \<and> v = nv / dv \<and> 0 < t \<and> t \<le> 1 \<and> 0 < v"
    by (auto simp: intersectEdge_def Let_def dv_def nt_def nv_def)
  have sol: "solvesRay s d a b t v \<longleftrightarrow> t = nt / dv \<and> v = nv / dv" if nz: "dv \<noteq> 0"
  proof
    assume "solvesRay s d a b t v"
    then have e1: "x3 s + v * vx d = x3 a + t * (x3 b - x3 a)"
      and e2: "y3 s + v * vy d = y3 a + t * (y3 b - y3 a)"
      by (simp_all add: solvesRay_def)
    have "t * dv = nt" using e1 e2 unfolding dv_def nt_def by algebra
    moreover have "v * dv = nv" using e1 e2 unfolding dv_def nv_def by algebra
    ultimately show "t = nt / dv \<and> v = nv / dv" using nz by (simp add: field_simps)
  next
    assume tv: "t = nt / dv \<and> v = nv / dv"
    then have t: "t * dv = nt" and v: "v * dv = nv" using nz by simp_all
    have "(x3 s + v * vx d) * dv = (x3 a + t * (x3 b - x3 a)) * dv"
      using t v unfolding dv_def nt_def nv_def by algebra
    moreover have "(y3 s + v * vy d) * dv = (y3 a + t * (y3 b - y3 a)) * dv"
      using t v unfolding dv_def nt_def nv_def by algebra
    ultimately show "solvesRay s d a b t v" using nz by (simp add: solvesRay_def)
  qed
  show ?thesis
    unfolding code acceptsEdge_def det using sol by blast
qed

lemma polygonEdges_nth:
  "0 < n \<Longrightarrow> k < n \<Longrightarrow> polygonEdges n ! k = (nat (edgeFrom (int n) k), k)"
  by (cases k) (auto simp: polygonEdges_def edgeFrom_def nat_diff_distrib')

lemma polygonEdges_length: "0 < n \<Longrightarrow> length (polygonEdges n) = n"
  by (simp add: polygonEdges_def)


lemma edgeHit_iff:
  assumes "vertexCount = int (length vertices)" "k < length vertices"
    and "polygonEdges (length vertices) ! k = (i, j)"
  shows "edgeHit vertices vertexCount start dir k = Some (t, v) \<longleftrightarrow>
         acceptsEdge start dir (vertices ! i) (vertices ! j) t v"
proof -
  have "0 < length vertices" using assms(2) by (cases vertices) simp_all
  from polygonEdges_nth[OF this assms(2)] assms(3)
  have i: "i = nat (edgeFrom (int (length vertices)) k)" and j: "j = k" by simp_all
  show ?thesis
    unfolding edgeHit_def assms(1) i j by (rule intersectEdge_iff)
qed

subsection \<open>Invalid input\<close>

text \<open>
  Claim C2. When \<open>vertexCount < 3\<close>, or \<open>heightFactor \<le> 0\<close>, or the ray count is
  \<open>\<le> 0\<close>, or \<open>geomFactor \<le> 0\<close>, \<^verbatim>\<open>createAmbientShadow\<close> returns the mode it starts with,
  \<open>kVertexBufferMode_OnePolyRingShadow\<close>, and the vertex buffer is on return what it was
  on entry: nothing is allocated and nothing is stored, so a buffer that was empty stays
  empty.
\<close>

theorem createAmbientShadow_invalid:
  "vertexCount < 3 \<or> heightFactor \<le> 0 \<or> SHADOW_RAY_COUNT \<le> 0 \<or> geomFactor \<le> 0 \<Longrightarrow>
   createAmbientShadow SHADOW_RAY_COUNT SHADOW_VERTEX_COUNT isCasterOpaque vertices vertexCount
     centroid3d heightFactor geomFactor shadowVertexBuffer uninit =
   Inr (kVertexBufferMode_OnePolyRingShadow, shadowVertexBuffer)"
  by (simp add: createAmbientShadow_def)


theorem createAmbientShadow_invalid_witness:
  "(2::int) < 3 \<and>
   createAmbientShadow 8 24 False [Vector3 0 0 0, Vector3 1 0 0] 2 (Vector3 0 0 2) 1 1 []
       (\<lambda>i. \<lparr>outEdgeIndex = 0, outEdgeFraction = 0, outRayDist = 0\<rparr>) =
     Inr (kVertexBufferMode_OnePolyRingShadow, [])"
  using createAmbientShadow_invalid [of 2 1 8 1 24 False "[Vector3 0 0 0, Vector3 1 0 0]"
      "Vector3 0 0 2" "[]" "\<lambda>i. \<lparr>outEdgeIndex = 0, outEdgeFraction = 0, outRayDist = 0\<rparr>"]
  by simp

subsection \<open>The first accepted edge\<close>

text \<open>
  Claim C3. For a polygon of at least three vertices, let \<open>(i, j)\<close> be the \<open>k\<close>-th edge
  in the order "last vertex to first, then each consecutive pair". If the edge is accepted
  with parameters \<open>t\<close> and \<open>v\<close> (determinant other than zero, \<open>t\<close> and \<open>v\<close> solve
  \<open>origin + v * direction = p1 + t * (p2 - p1)\<close>, \<open>t\<close> in \<open>(0, 1]\<close>, \<open>v > 0\<close>) and no
  earlier edge is accepted for any parameters, then \<^verbatim>\<open>calculateIntersection\<close> returns the
  from-vertex index \<open>i\<close>, the fraction \<open>t\<close> and the ray distance \<open>v\<close>, whatever the
  outputs held before; the height that \<^verbatim>\<open>createAmbientShadow\<close> records for the ray is
  \<open>h(p1) + t * (h(p2) - h(p1))\<close>, and \<open>p2\<close> is the vertex after \<open>p1\<close> modulo the vertex
  count.
\<close>

theorem calculateIntersection_first_accepted:
  assumes count: "vertexCount = int (length vertices)" and three: "3 \<le> vertexCount"
    and k: "k < length vertices"
    and edge: "polygonEdges (length vertices) ! k = (i, j)"
    and acc: "acceptsEdge start dir (vertices ! i) (vertices ! j) t v"
    and first: "\<forall>q<k. \<forall>t' v'. \<not> acceptsEdge start dir
                  (vertices ! fst (polygonEdges (length vertices) ! q))
                  (vertices ! snd (polygonEdges (length vertices) ! q)) t' v'"
  shows "calculateIntersection vertices vertexCount start dir out =
           \<lparr>outEdgeIndex = int i, outEdgeFraction = t, outRayDist = v\<rparr> \<and>
         createAmbientShadow_ray vertices vertexCount start dir out =
           (v, z3 (vertices ! i) + t * (z3 (vertices ! j) - z3 (vertices ! i))) \<and>
         j = (i + 1) mod length vertices"
proof -
  have pos: "0 < length vertices" using k by (cases vertices) simp_all
  from polygonEdges_nth[OF pos k] edge
  have i: "i = nat (edgeFrom vertexCount k)" and j: "j = k" by (simp_all add: count)
  have i_range: "0 \<le> edgeFrom vertexCount k" "edgeFrom vertexCount k < vertexCount"
    using k three count by (auto simp: edgeFrom_def)
  then have int_i: "int i = edgeFrom vertexCount k" by (simp add: i)
  have hit: "edgeHit vertices vertexCount start dir k = Some (t, v)"
    using edgeHit_iff[OF count k edge] acc by simp
  have miss: "edgeHit vertices vertexCount start dir q = None" if "q < k" for q
  proof (cases "edgeHit vertices vertexCount start dir q")
    case None then show ?thesis .
  next
    case (Some r)
    obtain t' v' where r: "r = (t', v')" by (cases r)
    have qlt: "q < length vertices" using that k by simp
    have "acceptsEdge start dir
            (vertices ! fst (polygonEdges (length vertices) ! q))
            (vertices ! snd (polygonEdges (length vertices) ! q)) t' v'"
      using edgeHit_iff[OF count qlt, of "fst (polygonEdges (length vertices) ! q)"
          "snd (polygonEdges (length vertices) ! q)" start dir t' v'] Some r
      by simp
    with first that show ?thesis by blast
  qed
  have res: "calculateIntersection vertices vertexCount start dir out =
           \<lparr>outEdgeIndex = int i, outEdgeFraction = t, outRayDist = v\<rparr>"
    unfolding calculateIntersection_def int_i
    using k count hit miss
    by (intro loop_first_hit) (simp_all add: edgeFrom_def)
  have next_j: "(int i + 1) smod vertexCount = int j"
  proof -
    have "(int i + 1) smod vertexCount = (int i + 1) mod vertexCount"
      using three by (intro smod_nonneg) simp_all
    also have "\<dots> = int j"
      using k count three unfolding int_i j by (auto simp: edgeFrom_def)
    finally show ?thesis .
  qed
  have jmod: "j = (i + 1) mod length vertices"
  proof -
    have "int j = (int i + 1) mod vertexCount"
      using k count three unfolding int_i j by (auto simp: edgeFrom_def)
    then have "int j = int ((i + 1) mod length vertices)"
      by (simp add: count zmod_int add.commute)
    then show ?thesis by (simp only: of_nat_eq_iff)
  qed
  have ray: "createAmbientShadow_ray vertices vertexCount start dir out =
           (v, z3 (vertices ! i) + t * (z3 (vertices ! j) - z3 (vertices ! i)))"
    using i_range next_j
    by (simp add: createAmbientShadow_ray_def res Let_def int_i[symmetric])
  from res ray jmod show ?thesis by blast
qed


theorem calculateIntersection_first_accepted_witness:
  "polygonEdges 4 ! 3 = (2, 3) \<and>
   acceptsEdge (Vector3 0 0 2) (Vector2 0 1) (Vector3 1 1 4) (Vector3 (- 1) 1 8) (1 / 2) 1 \<and>
   (\<forall>t' v'. \<not> acceptsEdge (Vector3 0 0 2) (Vector2 0 1) (Vector3 (- 1) 1 8) (Vector3 (- 1) (- 1) 0) t' v') \<and>
   (\<forall>t' v'. \<not> acceptsEdge (Vector3 0 0 2) (Vector2 0 1) (Vector3 (- 1) (- 1) 0) (Vector3 1 (- 1) 0) t' v') \<and>
   (\<forall>t' v'. \<not> acceptsEdge (Vector3 0 0 2) (Vector2 0 1) (Vector3 1 (- 1) 0) (Vector3 1 1 4) t' v') \<and>
   calculateIntersection
       [Vector3 (- 1) (- 1) 0, Vector3 1 (- 1) 0, Vector3 1 1 4, Vector3 (- 1) 1 8] 4
       (Vector3 0 0 2) (Vector2 0 1) \<lparr>outEdgeIndex = 7, outEdgeFraction = 9, outRayDist = 5\<rparr> =
     \<lparr>outEdgeIndex = 2, outEdgeFraction = 1 / 2, outRayDist = 1\<rparr> \<and>
   createAmbientShadow_ray
       [Vector3 (- 1) (- 1) 0, Vector3 1 (- 1) 0, Vector3 1 1 4, Vector3 (- 1) 1 8] 4
       (Vector3 0 0 2) (Vector2 0 1) \<lparr>outEdgeIndex = 7, outEdgeFraction = 9, outRayDist = 5\<rparr> =
     (1, 6)"
proof -
  let ?vs = "[Vector3 (- 1) (- 1) 0, Vector3 1 (- 1) 0, Vector3 1 1 4, Vector3 (- 1) 1 8]"
  let ?o = "Vector3 0 0 2" and ?d = "Vector2 0 1"
  have edges: "polygonEdges 4 = [(3, 0), (0, 1), (1, 2), (2, 3)]"
    by (simp add: polygonEdges_def upt_rec)
  have acc: "acceptsEdge ?o ?d (?vs ! 2) (?vs ! 3) (1 / 2) 1"
    by (simp add: acceptsEdge_def determinant_def solvesRay_def)
  have r0: "\<not> acceptsEdge ?o ?d (?vs ! 3) (?vs ! 0) t' v'" for t' v'
    unfolding intersectEdge_iff[symmetric] by (simp add: intersectEdge_def)
  have r1: "\<not> acceptsEdge ?o ?d (?vs ! 0) (?vs ! 1) t' v'" for t' v'
    unfolding intersectEdge_iff[symmetric] by (simp add: intersectEdge_def)
  have r2: "\<not> acceptsEdge ?o ?d (?vs ! 1) (?vs ! 2) t' v'" for t' v'
    unfolding intersectEdge_iff[symmetric] by (simp add: intersectEdge_def)
  have edges': "polygonEdges (length ?vs) = [(3, 0), (0, 1), (1, 2), (2, 3)]"
    by (simp add: polygonEdges_def upt_rec)
  have first: "\<forall>q<3. \<forall>t' v'. \<not> acceptsEdge ?o ?d
                  (?vs ! fst (polygonEdges (length ?vs) ! q))
                  (?vs ! snd (polygonEdges (length ?vs) ! q)) t' v'"
  proof (intro allI impI)
    fix q :: nat and t' v' :: real
    assume "q < 3"
    then consider "q = 0" | "q = 1" | "q = 2" by linarith
    then show "\<not> acceptsEdge ?o ?d
                  (?vs ! fst (polygonEdges (length ?vs) ! q))
                  (?vs ! snd (polygonEdges (length ?vs) ! q)) t' v'"
    proof cases
      case 1 then show ?thesis using r0[of t' v'] unfolding edges' by simp
    next
      case 2 then show ?thesis using r1[of t' v'] unfolding edges' by simp
    next
      case 3 then show ?thesis using r2[of t' v'] unfolding edges' by simp
    qed
  qed
  have e3: "polygonEdges (length ?vs) ! 3 = (2, 3)" unfolding edges' by simp
  have "calculateIntersection ?vs 4 ?o ?d \<lparr>outEdgeIndex = 7, outEdgeFraction = 9, outRayDist = 5\<rparr> =
           \<lparr>outEdgeIndex = int 2, outEdgeFraction = 1 / 2, outRayDist = 1\<rparr> \<and>
         createAmbientShadow_ray ?vs 4 ?o ?d \<lparr>outEdgeIndex = 7, outEdgeFraction = 9, outRayDist = 5\<rparr> =
           (1, z3 (?vs ! 2) + 1 / 2 * (z3 (?vs ! 3) - z3 (?vs ! 2))) \<and>
         3 = (2 + 1) mod length ?vs"
    by (rule calculateIntersection_first_accepted [OF _ _ _ e3 acc first]) simp_all
  then show ?thesis using acc r0 r1 r2 by (simp add: edges)
qed

subsection \<open>No accepted edge\<close>

text \<open>
  Claim C10. When no round of the loop accepts its edge, \<^verbatim>\<open>calculateIntersection\<close>
  returns with the three outputs as they were on entry; if an output differs on return,
  some round accepted its edge.
\<close>

theorem calculateIntersection_frame:
  "((\<forall>p2. int p2 < vertexCount \<longrightarrow> edgeHit vertices vertexCount start dir p2 = None) \<longrightarrow>
      calculateIntersection vertices vertexCount start dir out = out) \<and>
   (calculateIntersection vertices vertexCount start dir out \<noteq> out \<longrightarrow>
      (\<exists>p2. int p2 < vertexCount \<and> edgeHit vertices vertexCount start dir p2 \<noteq> None))"
proof -
  have miss: "calculateIntersection vertices vertexCount start dir out = out"
    if "\<forall>p2. int p2 < vertexCount \<longrightarrow> edgeHit vertices vertexCount start dir p2 = None"
    unfolding calculateIntersection_def
    using that by (intro loop_miss) (simp_all add: edgeFrom_def)
  then show ?thesis by blast
qed

theorem calculateIntersection_frame_witness:
  "edgeHit [Vector3 1 1 0, Vector3 2 1 5, Vector3 1 2 7] 3 (Vector3 0 0 0) (Vector2 0 1) 0 = None \<and>
   edgeHit [Vector3 1 1 0, Vector3 2 1 5, Vector3 1 2 7] 3 (Vector3 0 0 0) (Vector2 0 1) 1 = None \<and>
   edgeHit [Vector3 1 1 0, Vector3 2 1 5, Vector3 1 2 7] 3 (Vector3 0 0 0) (Vector2 0 1) 2 = None \<and>
   calculateIntersection [Vector3 1 1 0, Vector3 2 1 5, Vector3 1 2 7] 3 (Vector3 0 0 0) (Vector2 0 1)
       \<lparr>outEdgeIndex = 1, outEdgeFraction = 1 / 2, outRayDist = 1\<rparr> =
     \<lparr>outEdgeIndex = 1, outEdgeFraction = 1 / 2, outRayDist = 1\<rparr>"
proof -
  let ?vs = "[Vector3 1 1 0, Vector3 2 1 5, Vector3 1 2 7]"
  have e0: "edgeHit ?vs 3 (Vector3 0 0 0) (Vector2 0 1) 0 = None"
    by (simp add: edgeHit_def edgeFrom_def intersectEdge_def)
  have e1: "edgeHit ?vs 3 (Vector3 0 0 0) (Vector2 0 1) 1 = None"
    by (simp add: edgeHit_def edgeFrom_def intersectEdge_def)
  have e2: "edgeHit ?vs 3 (Vector3 0 0 0) (Vector2 0 1) 2 = None"
    by (simp add: edgeHit_def edgeFrom_def intersectEdge_def)
  have "p2 = 0 \<or> p2 = 1 \<or> p2 = 2" if "int p2 < 3" for p2 :: nat
    using that by auto
  with e0 e1 e2 have
    all: "\<forall>p2. int p2 < 3 \<longrightarrow> edgeHit ?vs 3 (Vector3 0 0 0) (Vector2 0 1) p2 = None"
    by metis
  show ?thesis
    using e0 e1 e2 all
      calculateIntersection_frame [of 3 ?vs "Vector3 0 0 0" "Vector2 0 1"
        "\<lparr>outEdgeIndex = 1, outEdgeFraction = 1 / 2, outRayDist = 1\<rparr>"]
    by blast
qed

subsection \<open>The vertex buffer\<close>

lemma store_Inr: "k < length buf \<Longrightarrow> store buf k v = Inr (buf[k := Some v])"
  by (simp add: store_def)

lemma store_length: "store buf k v = Inr b \<Longrightarrow> length b = length buf"
  by (auto simp: store_def split: if_splits)

lemma rings_length:
  "createAmbientShadow_rings rays dir rd rh c hf gf k buf = Inr b \<Longrightarrow> length b = length buf"
proof (induction rays dir rd rh c hf gf k buf rule: createAmbientShadow_rings.induct)
  case (1 rays dir rd rh c hf gf k buf)
  show ?case
  proof (cases "int k < rays")
    case False
    with "1.prems" show ?thesis by (simp add: createAmbientShadow_rings.simps)
  next
    case True
    from "1.prems" True obtain b1 b2 where
      s1: "store buf k (outerVertex rays dir rd rh c hf gf k) = Inr b1" and
      s2: "store b1 (nat rays + k) (innerVertex dir rd rh c hf k) = Inr b2" and
      rest: "createAmbientShadow_rings rays dir rd rh c hf gf (Suc k) b2 = Inr b"
      by (subst (asm) createAmbientShadow_rings.simps) (auto split: sum.splits)
    from "1.IH"[OF True s1 s2 rest] store_length[OF s1] store_length[OF s2]
    show ?thesis by simp
  qed
qed

lemma umbra_length:
  "createAmbientShadow_umbra rays cx k buf = Inr b \<Longrightarrow> length b = length buf"
proof (induction rays cx k buf rule: createAmbientShadow_umbra.induct)
  case (1 rays cx k buf)
  show ?case
  proof (cases "int k < rays")
    case False
    with "1.prems" show ?thesis by (simp add: createAmbientShadow_umbra.simps)
  next
    case True
    from "1.prems" True obtain b1 where
      s1: "store buf (2 * nat rays + k) cx = Inr b1" and
      rest: "createAmbientShadow_umbra rays cx (Suc k) b1 = Inr b"
      by (subst (asm) createAmbientShadow_umbra.simps) (auto split: sum.splits)
    from "1.IH"[OF True s1 rest] store_length[OF s1]
    show ?thesis by simp
  qed
qed

lemma rings_result:
  "2 * nat rays \<le> length buf \<Longrightarrow>
   \<exists>b. createAmbientShadow_rings rays dir rd rh c hf gf k buf = Inr b \<and>
       length b = length buf \<and>
       (\<forall>j<length buf. b ! j =
          (if k \<le> j \<and> j < nat rays then Some (outerVertex rays dir rd rh c hf gf j)
           else if nat rays + k \<le> j \<and> j < 2 * nat rays
             then Some (innerVertex dir rd rh c hf (j - nat rays))
           else buf ! j))"
proof (induction rays dir rd rh c hf gf k buf rule: createAmbientShadow_rings.induct)
  case (1 rays dir rd rh c hf gf k buf)
  show ?case
  proof (cases "int k < rays")
    case False
    then have "createAmbientShadow_rings rays dir rd rh c hf gf k buf = Inr buf"
      by (simp add: createAmbientShadow_rings.simps)
    moreover from False have "\<not> (k \<le> j \<and> j < nat rays)" "\<not> (nat rays + k \<le> j \<and> j < 2 * nat rays)" for j
      by auto
    ultimately show ?thesis by auto
  next
    case True
    then have kN: "k < nat rays" by simp
    define b1 where "b1 = buf[k := Some (outerVertex rays dir rd rh c hf gf k)]"
    define b2 where "b2 = b1[nat rays + k := Some (innerVertex dir rd rh c hf k)]"
    have s1: "store buf k (outerVertex rays dir rd rh c hf gf k) = Inr b1"
      unfolding b1_def using kN "1.prems" by (intro store_Inr) simp
    have s2: "store b1 (nat rays + k) (innerVertex dir rd rh c hf k) = Inr b2"
      unfolding b2_def using kN "1.prems" by (intro store_Inr) (simp add: b1_def)
    have len2: "length b2 = length buf" by (simp add: b1_def b2_def)
    with "1.prems" have "2 * nat rays \<le> length b2" by simp
    from "1.IH"[OF True s1 s2 this] obtain b where
      run: "createAmbientShadow_rings rays dir rd rh c hf gf (Suc k) b2 = Inr b" and
      len: "length b = length b2" and
      slots: "\<forall>j<length b2. b ! j =
          (if Suc k \<le> j \<and> j < nat rays then Some (outerVertex rays dir rd rh c hf gf j)
           else if nat rays + Suc k \<le> j \<and> j < 2 * nat rays
             then Some (innerVertex dir rd rh c hf (j - nat rays))
           else b2 ! j)"
      by blast
    have run': "createAmbientShadow_rings rays dir rd rh c hf gf k buf = Inr b"
      using True s1 s2 run by (subst createAmbientShadow_rings.simps) simp
    have "b ! j =
          (if k \<le> j \<and> j < nat rays then Some (outerVertex rays dir rd rh c hf gf j)
           else if nat rays + k \<le> j \<and> j < 2 * nat rays
             then Some (innerVertex dir rd rh c hf (j - nat rays))
           else buf ! j)" if "j < length buf" for j
    proof -
      from that slots len2 have bj: "b ! j =
          (if Suc k \<le> j \<and> j < nat rays then Some (outerVertex rays dir rd rh c hf gf j)
           else if nat rays + Suc k \<le> j \<and> j < 2 * nat rays
             then Some (innerVertex dir rd rh c hf (j - nat rays))
           else b2 ! j)" by simp
      consider "j = k" | "j = nat rays + k" | "j \<noteq> k" "j \<noteq> nat rays + k" by blast
      then show ?thesis
      proof cases
        case 1
        then show ?thesis using bj kN that by (simp add: b1_def b2_def)
      next
        case 2
        then show ?thesis using bj kN that by (simp add: b1_def b2_def)
      next
        case 3
        then have "b2 ! j = buf ! j" by (simp add: b1_def b2_def)
        then show ?thesis using bj 3 by (auto simp: Suc_le_eq le_less)
      qed
    qed
    with run' len len2 show ?thesis by simp
  qed
qed

lemma umbra_result:
  "3 * nat rays \<le> length buf \<Longrightarrow>
   \<exists>b. createAmbientShadow_umbra rays cx k buf = Inr b \<and>
       length b = length buf \<and>
       (\<forall>j<length buf. b ! j =
          (if 2 * nat rays + k \<le> j \<and> j < 3 * nat rays then Some cx else buf ! j))"
proof (induction rays cx k buf rule: createAmbientShadow_umbra.induct)
  case (1 rays cx k buf)
  show ?case
  proof (cases "int k < rays")
    case False
    then have "createAmbientShadow_umbra rays cx k buf = Inr buf"
      by (simp add: createAmbientShadow_umbra.simps)
    moreover from False have "\<not> (2 * nat rays + k \<le> j \<and> j < 3 * nat rays)" for j
      by auto
    ultimately show ?thesis by auto
  next
    case True
    then have kN: "k < nat rays" by simp
    define b1 where "b1 = buf[2 * nat rays + k := Some cx]"
    have s1: "store buf (2 * nat rays + k) cx = Inr b1"
      unfolding b1_def using kN "1.prems" by (intro store_Inr) simp
    have len1: "length b1 = length buf" by (simp add: b1_def)
    with "1.prems" have "3 * nat rays \<le> length b1" by simp
    from "1.IH"[OF True s1 this] obtain b where
      run: "createAmbientShadow_umbra rays cx (Suc k) b1 = Inr b" and
      len: "length b = length b1" and
      slots: "\<forall>j<length b1. b ! j =
          (if 2 * nat rays + Suc k \<le> j \<and> j < 3 * nat rays then Some cx else b1 ! j)"
      by blast
    have run': "createAmbientShadow_umbra rays cx k buf = Inr b"
      using True s1 run by (subst createAmbientShadow_umbra.simps) simp
    have "b ! j = (if 2 * nat rays + k \<le> j \<and> j < 3 * nat rays then Some cx else buf ! j)"
      if "j < length buf" for j
    proof -
      from that slots len1 have bj: "b ! j =
          (if 2 * nat rays + Suc k \<le> j \<and> j < 3 * nat rays then Some cx else b1 ! j)"
        by simp
      show ?thesis
      proof (cases "j = 2 * nat rays + k")
        case True
        then show ?thesis using bj kN that by (simp add: b1_def)
      next
        case False
        then have "b1 ! j = buf ! j" by (simp add: b1_def)
        then show ?thesis using bj False by (auto simp: Suc_le_eq le_less)
      qed
    qed
    with run' len len1 show ?thesis by simp
  qed
qed

lemma alloc_length: "length (alloc n) = n"
  by (simp add: alloc_def)

lemma alloc_nth: "j < n \<Longrightarrow> alloc n ! j = None"
  by (simp add: alloc_def)

lemma createAmbientShadow_valid_unfold:
  assumes "3 \<le> vertexCount" "0 < hf" "0 < N" "0 < gf"
  shows "createAmbientShadow N V opaque vs vertexCount c hf gf buf0 u =
     (case createAmbientShadow_rings N (calculateRayDirections N)
             (rayDistances N vs vertexCount c u) (rayHeights N vs vertexCount c u)
             (Vector2 (x3 c) (y3 c)) hf gf 0 (alloc V) of
        Inl e \<Rightarrow> Inl e
      | Inr b \<Rightarrow>
          if \<not> opaque then
            (case createAmbientShadow_umbra N
                    (AlphaVertex (x3 c) (y3 c) (1 / (1 + z3 c * hf))) 0 b of
               Inl e \<Rightarrow> Inl e
             | Inr b' \<Rightarrow> Inr (kVertexBufferMode_TwoPolyRingShadow, b'))
          else Inr (kVertexBufferMode_OnePolyRingShadow, b))"
  using assms
  by (simp add: createAmbientShadow_def Let_def rayDistances_def rayHeights_def
        split: sum.splits)

lemma createAmbientShadow_length:
  assumes "3 \<le> vertexCount" "0 < hf" "0 < N" "0 < gf"
    and "createAmbientShadow N V opaque vs vertexCount c hf gf buf0 u = Inr (m, b)"
  shows "length b = V"
  using assms(5)
  unfolding createAmbientShadow_valid_unfold[OF assms(1-4)]
  by (auto split: sum.splits if_splits dest!: rings_length umbra_length simp: alloc_length)

lemma createAmbientShadow_result:
  assumes "3 \<le> vertexCount" "0 < hf" "0 < N" "0 < gf"
    and cap: "(if opaque then 2 else 3) * nat N \<le> V"
  shows "\<exists>b. createAmbientShadow N V opaque vs vertexCount c hf gf buf0 u =
             Inr (if opaque then kVertexBufferMode_OnePolyRingShadow
                  else kVertexBufferMode_TwoPolyRingShadow, b) \<and>
           length b = V \<and>
           (\<forall>j<V. b ! j =
              (if j < nat N then
                 Some (outerVertex N (calculateRayDirections N)
                         (rayDistances N vs vertexCount c u) (rayHeights N vs vertexCount c u)
                         (Vector2 (x3 c) (y3 c)) hf gf j)
               else if j < 2 * nat N then
                 Some (innerVertex (calculateRayDirections N)
                         (rayDistances N vs vertexCount c u) (rayHeights N vs vertexCount c u)
                         (Vector2 (x3 c) (y3 c)) hf (j - nat N))
               else if \<not> opaque \<and> j < 3 * nat N then
                 Some (AlphaVertex (x3 c) (y3 c) (1 / (1 + z3 c * hf)))
               else None))"
proof -
  let ?dir = "calculateRayDirections N"
  let ?rd = "rayDistances N vs vertexCount c u"
  let ?rh = "rayHeights N vs vertexCount c u"
  let ?c2 = "Vector2 (x3 c) (y3 c)"
  let ?cx = "AlphaVertex (x3 c) (y3 c) (1 / (1 + z3 c * hf))"
  have cap2: "2 * nat N \<le> length (alloc V)"
    using cap by (simp add: alloc_length split: if_splits)
  from rings_result[OF cap2, of ?dir ?rd ?rh ?c2 hf gf 0] obtain b where
    run: "createAmbientShadow_rings N ?dir ?rd ?rh ?c2 hf gf 0 (alloc V) = Inr b" and
    len: "length b = V" and
    slots: "\<forall>j<V. b ! j =
          (if j < nat N then Some (outerVertex N ?dir ?rd ?rh ?c2 hf gf j)
           else if nat N \<le> j \<and> j < 2 * nat N
             then Some (innerVertex ?dir ?rd ?rh ?c2 hf (j - nat N))
           else None)"
    by (auto simp: alloc_length alloc_nth)
  show ?thesis
  proof (cases opaque)
    case True
    have "createAmbientShadow N V opaque vs vertexCount c hf gf buf0 u =
            Inr (kVertexBufferMode_OnePolyRingShadow, b)"
      unfolding createAmbientShadow_valid_unfold[OF assms(1-4)] using run True by simp
    moreover have "b ! j =
              (if j < nat N then Some (outerVertex N ?dir ?rd ?rh ?c2 hf gf j)
               else if j < 2 * nat N then Some (innerVertex ?dir ?rd ?rh ?c2 hf (j - nat N))
               else if \<not> opaque \<and> j < 3 * nat N then Some ?cx
               else None)" if "j < V" for j
      using slots that True by auto
    ultimately show ?thesis using len True by auto
  next
    case False
    with cap len have cap3: "3 * nat N \<le> length b" by simp
    from umbra_result[OF cap3, of ?cx 0] obtain b' where
      run': "createAmbientShadow_umbra N ?cx 0 b = Inr b'" and
      len': "length b' = V" and
      slots': "\<forall>j<V. b' ! j = (if 2 * nat N \<le> j \<and> j < 3 * nat N then Some ?cx else b ! j)"
      using len by auto
    have "createAmbientShadow N V opaque vs vertexCount c hf gf buf0 u =
            Inr (kVertexBufferMode_TwoPolyRingShadow, b')"
      unfolding createAmbientShadow_valid_unfold[OF assms(1-4)] using run run' False by simp
    moreover have "b' ! j =
              (if j < nat N then Some (outerVertex N ?dir ?rd ?rh ?c2 hf gf j)
               else if j < 2 * nat N then Some (innerVertex ?dir ?rd ?rh ?c2 hf (j - nat N))
               else if \<not> opaque \<and> j < 3 * nat N then Some ?cx
               else None)" if "j < V" for j
      using slots slots' that False by auto
    ultimately show ?thesis using len' False by auto
  qed
qed

lemma filter_prefix_count:
  assumes "M \<le> length xs" and "\<forall>j<length xs. P (xs ! j) \<longleftrightarrow> j < M"
  shows "length (filter P xs) = M"
proof -
  have "filter P (take M xs) = take M xs"
    using assms by (intro filter_True) (auto simp: in_set_conv_nth)
  moreover have "filter P (drop M xs) = []"
    using assms by (intro filter_False) (auto simp: in_set_conv_nth)
  moreover have "filter P xs = filter P (take M xs) @ filter P (drop M xs)"
    by (simp flip: filter_append)
  ultimately show ?thesis using assms(1) by simp
qed

subsection \<open>Ray directions\<close>

lemma calculateRayDirections_length: "length (calculateRayDirections rays) = nat rays"
  by (simp add: calculateRayDirections_def)

lemma calculateRayDirections_nth:
  "i < nat rays \<Longrightarrow>
   calculateRayDirections rays ! i =
     Vector2 (sin (2 * pi / real_of_int rays * real i)) (cos (2 * pi / real_of_int rays * real i))"
  by (simp add: calculateRayDirections_def)

text \<open>
  Claim C7. For a ray count \<open>N > 0\<close>, \<^verbatim>\<open>calculateRayDirections\<close> yields \<open>N\<close> vectors,
  the \<open>i\<close>-th being \<open>(sin (2 pi i / N), cos (2 pi i / N))\<close>. Each has length one, and
  the next one, modulo \<open>N\<close>, is the clockwise rotation of the \<open>i\<close>-th by the angle
  \<open>2 pi / N\<close>. (Numbers are real here: the statement is about the exact sine and cosine,
  not about their rounded \<^verbatim>\<open>float\<close> values.)
\<close>

theorem calculateRayDirections_unit_circle:
  assumes "0 < rays" and "i < nat rays"
  shows "length (calculateRayDirections rays) = nat rays \<and>
         calculateRayDirections rays ! i =
           Vector2 (sin (2 * pi * real i / real_of_int rays))
                   (cos (2 * pi * real i / real_of_int rays)) \<and>
         v2_length (calculateRayDirections rays ! i) = 1 \<and>
         calculateRayDirections rays ! (Suc i mod nat rays) =
           Vector2 (vx (calculateRayDirections rays ! i) * cos (2 * pi / real_of_int rays) +
                    vy (calculateRayDirections rays ! i) * sin (2 * pi / real_of_int rays))
                   (vy (calculateRayDirections rays ! i) * cos (2 * pi / real_of_int rays) -
                    vx (calculateRayDirections rays ! i) * sin (2 * pi / real_of_int rays))"
proof -
  define d where "d = 2 * pi / real_of_int rays"
  have nth: "calculateRayDirections rays ! j = Vector2 (sin (d * real j)) (cos (d * real j))"
    if "j < nat rays" for j
    using that by (simp add: calculateRayDirections_nth d_def)
  have form: "2 * pi * real i / real_of_int rays = d * real i"
    by (simp add: d_def)
  have unit: "v2_length (calculateRayDirections rays ! i) = 1"
  proof -
    have "sin (d * real i) * sin (d * real i) + cos (d * real i) * cos (d * real i) = 1"
      using sin_cos_squared_add[of "d * real i"] by (simp add: power2_eq_square)
    then show ?thesis by (simp add: nth[OF assms(2)] v2_length_def)
  qed
  have step: "sin (d * real i + d) = sin (d * real (Suc i mod nat rays)) \<and>
              cos (d * real i + d) = cos (d * real (Suc i mod nat rays))"
  proof (cases "Suc i < nat rays")
    case True
    then show ?thesis by (simp add: algebra_simps)
  next
    case False
    with assms(2) have last: "Suc i = nat rays" by simp
    then have "real (Suc i) = real_of_int rays" using assms(1) by simp
    moreover have "d * real i + d = d * real (Suc i)" by (simp add: algebra_simps)
    ultimately have "d * real i + d = d * real_of_int rays" by simp
    then have "d * real i + d = 2 * pi"
      using assms(1) by (simp add: d_def)
    then show ?thesis using last by simp
  qed
  have lt: "Suc i mod nat rays < nat rays" using assms(1) by simp
  have rot: "calculateRayDirections rays ! (Suc i mod nat rays) =
           Vector2 (vx (calculateRayDirections rays ! i) * cos d +
                    vy (calculateRayDirections rays ! i) * sin d)
                   (vy (calculateRayDirections rays ! i) * cos d -
                    vx (calculateRayDirections rays ! i) * sin d)"
    using step sin_add[of "d * real i" d] cos_add[of "d * real i" d]
    by (simp add: nth[OF lt] nth[OF assms(2)])
  show ?thesis
    using unit rot nth[OF assms(2)]
    unfolding form d_def[symmetric] by (simp add: calculateRayDirections_length)
qed

theorem calculateRayDirections_unit_circle_witness:
  "(0::int) < 4 \<and> (1::nat) < nat 4 \<and>
   length (calculateRayDirections 4) = 4 \<and>
   calculateRayDirections 4 ! 1 = Vector2 1 0 \<and>
   v2_length (calculateRayDirections 4 ! 1) = 1 \<and>
   calculateRayDirections 4 ! 2 = Vector2 0 (- 1)"
proof -
  have h1: "(0::int) < 4" and h2: "(1::nat) < nat 4" by simp_all
  have a: "2 * pi * real 1 / real_of_int 4 = pi / 2" by simp
  have b: "2 * pi / real_of_int 4 = pi / 2" by simp
  have c: "Suc 1 mod nat 4 = 2" by simp
  from calculateRayDirections_unit_circle [OF h1 h2]
  show ?thesis unfolding a b c by (simp add: v2_length_def)
qed

subsection \<open>How many vertices are written\<close>

text \<open>
  Claim C1, as amended. The buffer is allocated once, with \<^verbatim>\<open>SHADOW_VERTEX_COUNT\<close>
  slots, before the source looks at \<^verbatim>\<open>isCasterOpaque\<close>. On valid input, and when that
  capacity holds the rings to be written, \<^verbatim>\<open>createAmbientShadow\<close> returns with a buffer
  of \<^verbatim>\<open>SHADOW_VERTEX_COUNT\<close> slots of which exactly the first \<open>2N\<close> are written for an
  opaque caster and exactly the first \<open>3N\<close> for a caster that is not opaque.
\<close>

theorem createAmbientShadow_vertex_count:
  assumes "3 \<le> vertexCount" "0 < heightFactor" "0 < SHADOW_RAY_COUNT" "0 < geomFactor"
    and "(if isCasterOpaque then 2 else 3) * nat SHADOW_RAY_COUNT \<le> SHADOW_VERTEX_COUNT"
    and "vertexCount = int (length vertices)"
  shows "\<exists>mode b.
           createAmbientShadow SHADOW_RAY_COUNT SHADOW_VERTEX_COUNT isCasterOpaque vertices
             vertexCount centroid3d heightFactor geomFactor shadowVertexBuffer uninit =
             Inr (mode, b) \<and>
           length b = SHADOW_VERTEX_COUNT \<and>
           (\<forall>j<SHADOW_VERTEX_COUNT.
              b ! j \<noteq> None \<longleftrightarrow> j < (if isCasterOpaque then 2 else 3) * nat SHADOW_RAY_COUNT) \<and>
           length (filter (\<lambda>slot. slot \<noteq> None) b) =
             (if isCasterOpaque then 2 else 3) * nat SHADOW_RAY_COUNT"
proof -
  from createAmbientShadow_result[OF assms(1-5), of vertices centroid3d shadowVertexBuffer uninit]
  obtain b where
    run: "createAmbientShadow SHADOW_RAY_COUNT SHADOW_VERTEX_COUNT isCasterOpaque vertices
             vertexCount centroid3d heightFactor geomFactor shadowVertexBuffer uninit =
             Inr (if isCasterOpaque then kVertexBufferMode_OnePolyRingShadow
                  else kVertexBufferMode_TwoPolyRingShadow, b)" and
    len: "length b = SHADOW_VERTEX_COUNT" and
    slots: "\<forall>j<SHADOW_VERTEX_COUNT. b ! j =
              (if j < nat SHADOW_RAY_COUNT then
                 Some (outerVertex SHADOW_RAY_COUNT (calculateRayDirections SHADOW_RAY_COUNT)
                         (rayDistances SHADOW_RAY_COUNT vertices vertexCount centroid3d uninit)
                         (rayHeights SHADOW_RAY_COUNT vertices vertexCount centroid3d uninit)
                         (Vector2 (x3 centroid3d) (y3 centroid3d)) heightFactor geomFactor j)
               else if j < 2 * nat SHADOW_RAY_COUNT then
                 Some (innerVertex (calculateRayDirections SHADOW_RAY_COUNT)
                         (rayDistances SHADOW_RAY_COUNT vertices vertexCount centroid3d uninit)
                         (rayHeights SHADOW_RAY_COUNT vertices vertexCount centroid3d uninit)
                         (Vector2 (x3 centroid3d) (y3 centroid3d)) heightFactor
                         (j - nat SHADOW_RAY_COUNT))
               else if \<not> isCasterOpaque \<and> j < 3 * nat SHADOW_RAY_COUNT then
                 Some (AlphaVertex (x3 centroid3d) (y3 centroid3d)
                         (1 / (1 + z3 centroid3d * heightFactor)))
               else None)"
    by blast
  have written: "b ! j \<noteq> None \<longleftrightarrow> j < (if isCasterOpaque then 2 else 3) * nat SHADOW_RAY_COUNT"
    if "j < SHADOW_VERTEX_COUNT" for j
    using slots that by (auto split: if_splits)
  have "length (filter (\<lambda>slot. slot \<noteq> None) b) =
          (if isCasterOpaque then 2 else 3) * nat SHADOW_RAY_COUNT"
    using assms(5) written len by (intro filter_prefix_count) simp_all
  with run len written show ?thesis by blast
qed

theorem createAmbientShadow_vertex_count_witness:
  "\<exists>mode b.
     createAmbientShadow 8 24 True
       [Vector3 (- 1) (- 1) 0, Vector3 1 (- 1) 0, Vector3 1 1 0, Vector3 (- 1) 1 0] 4
       (Vector3 0 0 2) 1 1 [] (\<lambda>i. \<lparr>outEdgeIndex = 0, outEdgeFraction = 0, outRayDist = 0\<rparr>) =
       Inr (mode, b) \<and>
     length b = 24 \<and> b ! 15 \<noteq> None \<and> b ! 16 = None \<and>
     length (filter (\<lambda>slot. slot \<noteq> None) b) = 16"
proof -
  have h: "(if True then 2 else 3) * nat 8 \<le> (24::nat)" by simp
  have len: "4 = int (length [Vector3 (- 1) (- 1) 0, Vector3 1 (- 1) 0, Vector3 1 1 0,
                               Vector3 (- 1) 1 0])"
    by simp
  from createAmbientShadow_vertex_count [of 4 1 8 1 True 24, OF _ _ _ _ h len,
      of "Vector3 0 0 2" "[]" "\<lambda>i. \<lparr>outEdgeIndex = 0, outEdgeFraction = 0, outRayDist = 0\<rparr>"]
  obtain mode b where
    run: "createAmbientShadow 8 24 True
       [Vector3 (- 1) (- 1) 0, Vector3 1 (- 1) 0, Vector3 1 1 0, Vector3 (- 1) 1 0] 4
       (Vector3 0 0 2) 1 1 [] (\<lambda>i. \<lparr>outEdgeIndex = 0, outEdgeFraction = 0, outRayDist = 0\<rparr>) =
       Inr (mode, b)" and
    len: "length b = 24" and
    slots: "\<forall>j<24. b ! j \<noteq> None \<longleftrightarrow> j < (if True then 2 else 3) * nat 8" and
    cnt: "length (filter (\<lambda>slot. slot \<noteq> None) b) = (if True then 2 else 3) * nat 8"
    by auto
  have "b ! 15 \<noteq> None" using slots[THEN spec, of 15] by simp
  moreover have "b ! 16 = None" using slots[THEN spec, of 16] by simp
  ultimately show ?thesis using run len cnt by (intro exI[of _ mode] exI[of _ b]) simp
qed

text \<open>
  The claim as stated, that \<open>2N\<close> slots are allocated for an opaque caster and \<open>3N\<close>
  otherwise, fails for every value of the two constants: the allocated size is the same
  in both runs. With 8 rays and the 24 slots that the run for a caster that is not opaque
  needs, the run for an opaque caster returns 24 slots, not 16.
\<close>

theorem createAmbientShadow_allocation_not_by_opacity:
  "\<not> (\<exists>N V. 0 < N \<and>
        (\<forall>opaque. \<exists>mode b.
           createAmbientShadow N V opaque
             [Vector3 (- 1) (- 1) 0, Vector3 1 (- 1) 0, Vector3 1 1 0, Vector3 (- 1) 1 0] 4
             (Vector3 0 0 2) 1 1 []
             (\<lambda>i. \<lparr>outEdgeIndex = 0, outEdgeFraction = 0, outRayDist = 0\<rparr>) = Inr (mode, b) \<and>
           length b = (if opaque then 2 else 3) * nat N)) \<and>
   (\<exists>b. createAmbientShadow 8 24 True
           [Vector3 (- 1) (- 1) 0, Vector3 1 (- 1) 0, Vector3 1 1 0, Vector3 (- 1) 1 0] 4
           (Vector3 0 0 2) 1 1 []
           (\<lambda>i. \<lparr>outEdgeIndex = 0, outEdgeFraction = 0, outRayDist = 0\<rparr>) =
           Inr (kVertexBufferMode_OnePolyRingShadow, b) \<and>
        length b = 24 \<and> length b \<noteq> 2 * 8)"
proof
  let ?vs = "[Vector3 (- 1) (- 1) 0, Vector3 1 (- 1) 0, Vector3 1 1 0, Vector3 (- 1) 1 0]"
  let ?u = "\<lambda>i::nat. \<lparr>outEdgeIndex = 0, outEdgeFraction = 0, outRayDist = 0\<rparr>"
  show "\<not> (\<exists>N V. 0 < N \<and>
        (\<forall>opaque. \<exists>mode b.
           createAmbientShadow N V opaque ?vs 4 (Vector3 0 0 2) 1 1 [] ?u = Inr (mode, b) \<and>
           length b = (if opaque then 2 else 3) * nat N))"
  proof
    assume "\<exists>N V. 0 < N \<and>
        (\<forall>opaque. \<exists>mode b.
           createAmbientShadow N V opaque ?vs 4 (Vector3 0 0 2) 1 1 [] ?u = Inr (mode, b) \<and>
           length b = (if opaque then 2 else 3) * nat N)"
    then obtain N V where pos: "0 < N" and
      both: "\<And>opaque. \<exists>mode b.
           createAmbientShadow N V opaque ?vs 4 (Vector3 0 0 2) 1 1 [] ?u = Inr (mode, b) \<and>
           length b = (if opaque then 2 else 3) * nat N"
      by blast
    from both[of True] obtain m1 b1 where
      r1: "createAmbientShadow N V True ?vs 4 (Vector3 0 0 2) 1 1 [] ?u = Inr (m1, b1)"
      and l1: "length b1 = 2 * nat N" by auto
    from both[of False] obtain m2 b2 where
      r2: "createAmbientShadow N V False ?vs 4 (Vector3 0 0 2) 1 1 [] ?u = Inr (m2, b2)"
      and l2: "length b2 = 3 * nat N" by auto
    have "length b1 = V" by (rule createAmbientShadow_length[OF _ _ pos _ r1]) simp_all
    moreover have "length b2 = V" by (rule createAmbientShadow_length[OF _ _ pos _ r2]) simp_all
    ultimately show False using l1 l2 pos by simp
  qed
  have h: "(if True then 2 else 3) * nat 8 \<le> (24::nat)" by simp
  from createAmbientShadow_result[of 4 1 8 1 True 24, OF _ _ _ _ h,
      of ?vs "Vector3 0 0 2" "[]" ?u]
  show "\<exists>b. createAmbientShadow 8 24 True ?vs 4 (Vector3 0 0 2) 1 1 [] ?u =
           Inr (kVertexBufferMode_OnePolyRingShadow, b) \<and>
        length b = 24 \<and> length b \<noteq> 2 * 8"
    by auto
qed

subsection \<open>The alpha of the inner ring\<close>

text \<open>
  Claim C9, as amended. For \<open>heightFactor > 0\<close>, on the heights with
  \<open>1 + h * heightFactor > 0\<close> (every \<open>h \<ge> 0\<close> is one) the inner-ring alpha
  \<open>1 / (1 + h * heightFactor)\<close> strictly decreases as the product \<open>h * heightFactor\<close>
  grows, hence never increases; it is \<open>1\<close> where the product is \<open>0\<close>, and it tends to
  \<open>0\<close> as \<open>h\<close>, and with it the product, tends to infinity.
\<close>

theorem opacity_decreasing:
  assumes "0 < heightFactor"
  shows "(\<forall>h1 h2. 0 < 1 + h1 * heightFactor \<longrightarrow> h1 * heightFactor < h2 * heightFactor \<longrightarrow>
            opacity h2 heightFactor < opacity h1 heightFactor) \<and>
         (\<forall>h1 h2. 0 < 1 + h1 * heightFactor \<longrightarrow> h1 * heightFactor \<le> h2 * heightFactor \<longrightarrow>
            opacity h2 heightFactor \<le> opacity h1 heightFactor) \<and>
         (\<forall>h. h * heightFactor = 0 \<longrightarrow> opacity h heightFactor = 1) \<and>
         ((\<lambda>h. opacity h heightFactor) \<longlongrightarrow> 0) at_top"
proof -
  have strict: "opacity h2 heightFactor < opacity h1 heightFactor"
    if "0 < 1 + h1 * heightFactor" "h1 * heightFactor < h2 * heightFactor" for h1 h2
    using that by (simp add: opacity_def frac_less2)
  have weak: "opacity h2 heightFactor \<le> opacity h1 heightFactor"
    if "0 < 1 + h1 * heightFactor" "h1 * heightFactor \<le> h2 * heightFactor" for h1 h2
    using that by (simp add: opacity_def frac_le)
  have one: "opacity h heightFactor = 1" if "h * heightFactor = 0" for h
    unfolding opacity_def that by simp
  have "LIM h at_top. 1 + h * heightFactor :> at_top"
    by (intro filterlim_tendsto_add_at_top[OF tendsto_const]
        filterlim_at_top_mult_tendsto_pos[OF tendsto_const assms] filterlim_ident)
  then have "((\<lambda>h. inverse (1 + h * heightFactor)) \<longlongrightarrow> 0) at_top"
    by (rule tendsto_inverse_0_at_top)
  then have lim: "((\<lambda>h. opacity h heightFactor) \<longlongrightarrow> 0) at_top"
    by (simp add: opacity_def inverse_eq_divide)
  from strict weak one lim show ?thesis by blast
qed

theorem opacity_decreasing_witness:
  "(0::real) < 1 \<and> (0::real) < 1 + 0 * 1 \<and> (0::real) * 1 < 3 * 1 \<and>
   opacity 3 1 < opacity 0 1 \<and> opacity 3 1 \<le> opacity 0 1 \<and> opacity 0 1 = 1 \<and>
   ((\<lambda>h. opacity h 1) \<longlongrightarrow> 0) at_top"
proof -
  have h: "(0::real) < 1" by simp
  from opacity_decreasing [OF h]
  have s: "\<forall>h1 h2. 0 < 1 + h1 * 1 \<longrightarrow> h1 * 1 < h2 * 1 \<longrightarrow> opacity h2 1 < opacity h1 1"
    and w: "\<forall>h1 h2. 0 < 1 + h1 * 1 \<longrightarrow> h1 * 1 \<le> h2 * 1 \<longrightarrow> opacity h2 1 \<le> opacity h1 1"
    and z: "\<forall>h. h * 1 = 0 \<longrightarrow> opacity h 1 = 1"
    and l: "((\<lambda>h. opacity h 1) \<longlongrightarrow> 0) at_top"
    by blast+
  have "opacity 3 1 < opacity 0 1" using s[THEN spec, THEN spec, of 0 3] by simp
  moreover have "opacity 3 1 \<le> opacity 0 1" using w[THEN spec, THEN spec, of 0 3] by simp
  moreover have "opacity 0 1 = 1" using z[THEN spec, of 0] by simp
  ultimately show ?thesis using l by simp
qed

text \<open>
  The claim as stated has no lower bound on the product, and fails across the pole at
  \<open>h * heightFactor = - 1\<close>: with \<open>heightFactor = 1\<close> the product grows from \<open>- 2\<close> to
  \<open>0\<close> and the alpha grows from \<open>- 1\<close> to \<open>1\<close>. The source has no test on the sign of
  a height.
\<close>

theorem opacity_not_monotone:
  "(0::real) < 1 \<and> (- 2) * 1 \<le> (0::real) * 1 \<and> opacity (- 2) 1 < opacity 0 1"
  by (simp add: opacity_def)

subsection \<open>The normal and the two arrays of the first loop\<close>

lemma v2_sub_intersection:
  "v2_sub (intersection dir rayDist c b) (intersection dir rayDist c a) =
   v2_sub (v2_scale (dir ! b) (rayDist ! b)) (v2_scale (dir ! a) (rayDist ! a))"
  by (simp add: intersection_def v2_sub_def v2_add_def)

lemma v2_normalize_unit: "v2_length v \<noteq> 0 \<Longrightarrow> v2_length (v2_normalize v) = 1"
proof -
  assume nz: "v2_length v \<noteq> 0"
  define s where "s = vx v * vx v + vy v * vy v"
  have "0 \<le> s" by (simp add: s_def)
  moreover have "s \<noteq> 0" using nz by (auto simp: v2_length_def s_def)
  ultimately have spos: "0 < s" by simp
  have gen: "a * (1 / r) * (a * (1 / r)) + b * (1 / r) * (b * (1 / r)) = (a * a + b * b) / (r * r)"
    for a b r :: real
    by (simp add: add_divide_distrib)
  have "vx v * (1 / sqrt s) * (vx v * (1 / sqrt s)) + vy v * (1 / sqrt s) * (vy v * (1 / sqrt s)) =
        s / (sqrt s * sqrt s)"
    unfolding s_def by (rule gen)
  also have "\<dots> = 1" using spos by simp
  finally have eq: "vx v * (1 / sqrt s) * (vx v * (1 / sqrt s)) +
                    vy v * (1 / sqrt s) * (vy v * (1 / sqrt s)) = 1" .
  have "v2_length (v2_normalize v) =
        sqrt (vx v * (1 / sqrt s) * (vx v * (1 / sqrt s)) +
              vy v * (1 / sqrt s) * (vy v * (1 / sqrt s)))"
    by (simp only: v2_normalize_def v2_length_def Let_def Vector2.sel s_def)
  also have "\<dots> = sqrt 1" by (simp only: eq)
  finally show ?thesis by simp
qed

lemma calculateNormal_indices:
  assumes "0 < rays" "i < nat rays"
  shows "(int i - 1 + rays) smod rays = (int i - 1) mod rays"
    and "(int i + 1) smod rays = (int i + 1) mod rays"
proof -
  have "(int i - 1 + rays) smod rays = (int i - 1 + rays) mod rays"
    using assms by (intro smod_nonneg) simp_all
  then show "(int i - 1 + rays) smod rays = (int i - 1) mod rays" by simp
  show "(int i + 1) smod rays = (int i + 1) mod rays"
    using assms by (intro smod_nonneg) simp_all
qed

lemma calculateNormal_eq:
  assumes "0 < rays" "i < nat rays"
  shows "calculateNormal rays (int i) dir rayDist normal =
     (let a = intersection dir rayDist centroid2d (nat ((int i - 1) mod rays));
          b = intersection dir rayDist centroid2d (nat ((int i + 1) mod rays));
          chord = v2_sub b a
      in if v2_length chord = 0 then normal
         else Vector2 (- vy (v2_normalize chord)) (vx (v2_normalize chord)))"
  by (simp add: calculateNormal_def Let_def calculateNormal_indices[OF assms]
      v2_sub_intersection)

lemma rayDistances_nth:
  "i < nat rays \<Longrightarrow>
   rayDistances rays vertices vertexCount centroid3d uninit ! i =
     fst (createAmbientShadow_ray vertices vertexCount centroid3d
            (calculateRayDirections rays ! i) (uninit i))"
  by (simp add: rayDistances_def rayHits_def)

lemma rayHeights_nth:
  "i < nat rays \<Longrightarrow>
   rayHeights rays vertices vertexCount centroid3d uninit ! i =
     snd (createAmbientShadow_ray vertices vertexCount centroid3d
            (calculateRayDirections rays ! i) (uninit i))"
  by (simp add: rayHeights_def rayHits_def)

lemma directions_of_four:
  "calculateRayDirections 4 ! 0 = Vector2 0 1"
  "calculateRayDirections 4 ! 1 = Vector2 1 0"
  "calculateRayDirections 4 ! Suc 0 = Vector2 1 0"
  "calculateRayDirections 4 ! 2 = Vector2 0 (- 1)"
proof -
  have a: "2 * pi / real_of_int 4 * real 1 = pi / 2" by simp
  have b: "2 * pi / real_of_int 4 * real 2 = pi" by simp
  show "calculateRayDirections 4 ! 0 = Vector2 0 1"
    by (simp add: calculateRayDirections_nth)
  have "calculateRayDirections 4 ! 1 =
          Vector2 (sin (2 * pi / real_of_int 4 * real 1)) (cos (2 * pi / real_of_int 4 * real 1))"
    by (rule calculateRayDirections_nth) simp
  then show "calculateRayDirections 4 ! 1 = Vector2 1 0"
    unfolding a by simp
  then show "calculateRayDirections 4 ! Suc 0 = Vector2 1 0"
    by simp
  have "calculateRayDirections 4 ! 2 =
          Vector2 (sin (2 * pi / real_of_int 4 * real 2)) (cos (2 * pi / real_of_int 4 * real 2))"
    by (rule calculateRayDirections_nth) simp
  then show "calculateRayDirections 4 ! 2 = Vector2 0 (- 1)"
    unfolding b by simp
qed

lemma directions_of_two:
  "calculateRayDirections 2 ! 0 = Vector2 0 1"
  "calculateRayDirections 2 ! 1 = Vector2 0 (- 1)"
  "calculateRayDirections 2 ! Suc 0 = Vector2 0 (- 1)"
  by (simp_all add: calculateRayDirections_nth)

lemma directions_of_one: "calculateRayDirections 1 ! 0 = Vector2 0 1"
  by (simp add: calculateRayDirections_nth)

lemma square_rays:
  "createAmbientShadow_ray
     [Vector3 (- 1) (- 1) 0, Vector3 1 (- 1) 0, Vector3 1 1 4, Vector3 (- 1) 1 8] 4
     (Vector3 0 0 2) (Vector2 0 1) u = (1, 6)"
  "createAmbientShadow_ray
     [Vector3 (- 1) (- 1) 0, Vector3 1 (- 1) 0, Vector3 1 1 4, Vector3 (- 1) 1 8] 4
     (Vector3 0 0 2) (Vector2 1 0) u = (1, 2)"
  "createAmbientShadow_ray
     [Vector3 (- 1) (- 1) 0, Vector3 1 (- 1) 0, Vector3 1 1 4, Vector3 (- 1) 1 8] 4
     (Vector3 0 0 2) (Vector2 0 (- 1)) u = (1, 0)"
  by (simp_all add: createAmbientShadow_ray_def calculateIntersection_def
      calculateIntersection_loop.simps intersectEdge_def Let_def smod_int_alt_def)

subsection \<open>The outer and the inner ring\<close>

text \<open>
  The two vertices of a ray written out in the inputs of the second loop: the centroid,
  the directions, the ray distances and the ray heights.
\<close>

lemma neighbour_indices:
  assumes "0 < rays" "i < nat rays"
  shows "nat ((int i - 1) mod rays) < nat rays" "nat ((int i + 1) mod rays) < nat rays"
  using assms by simp_all

lemma outerVertex_explicit:
  assumes "0 < rays" "i < nat rays" "pre < nat rays" "post < nat rays"
    and pre: "pre = nat ((int i - 1) mod rays)" and post: "post = nat ((int i + 1) mod rays)"
  shows "outerVertex rays dir rayDist rayHeight (Vector2 cx0 cy0) heightFactor geomFactor i =
     (let cx = vx (dir ! post) * rayDist ! post - vx (dir ! pre) * rayDist ! pre;
          cy = vy (dir ! post) * rayDist ! post - vy (dir ! pre) * rayDist ! pre;
          len = sqrt (cx * cx + cy * cy);
          nx = (if len = 0 then 1 else - (cy / len));
          ny = (if len = 0 then 0 else cx / len)
      in AlphaVertex
           (cx0 + vx (dir ! i) * rayDist ! i + nx * (rayHeight ! i * heightFactor * geomFactor))
           (cy0 + vy (dir ! i) * rayDist ! i + ny * (rayHeight ! i * heightFactor * geomFactor)) 0)"
  unfolding pre post
  by (simp add: outerVertex_def calculateNormal_def Let_def calculateNormal_indices[OF assms(1,2)]
      intersection_def v2_add_def v2_scale_def v2_sub_def v2_length_def v2_normalize_def)

lemma innerVertex_explicit:
  "innerVertex dir rayDist rayHeight (Vector2 cx0 cy0) heightFactor i =
     AlphaVertex (cx0 + vx (dir ! i) * rayDist ! i) (cy0 + vy (dir ! i) * rayDist ! i)
       (1 / (1 + rayHeight ! i * heightFactor))"
  by (simp add: innerVertex_def intersection_def opacity_def Let_def v2_add_def v2_scale_def)

lemma quarter_turns:
  "Vector2 (sin (2 * pi * real 0 / real_of_int 4)) (cos (2 * pi * real 0 / real_of_int 4)) =
     Vector2 0 1"
  "Vector2 (sin (2 * pi * real 1 / real_of_int 4)) (cos (2 * pi * real 1 / real_of_int 4)) =
     Vector2 1 0"
  "Vector2 (sin (2 * pi * real 3 / real_of_int 4)) (cos (2 * pi * real 3 / real_of_int 4)) =
     Vector2 (- 1) 0"
proof -
  have a: "2 * pi * real 1 / real_of_int 4 = pi / 2" by simp
  have b: "2 * pi * real 3 / real_of_int 4 = 3 / 2 * pi" by simp
  show "Vector2 (sin (2 * pi * real 0 / real_of_int 4)) (cos (2 * pi * real 0 / real_of_int 4)) =
     Vector2 0 1" by simp
  show "Vector2 (sin (2 * pi * real 1 / real_of_int 4)) (cos (2 * pi * real 1 / real_of_int 4)) =
     Vector2 1 0" unfolding a by simp
  show "Vector2 (sin (2 * pi * real 3 / real_of_int 4)) (cos (2 * pi * real 3 / real_of_int 4)) =
     Vector2 (- 1) 0" unfolding b sin_3over2_pi cos_3over2_pi by (rule refl)
qed

lemma offset_square_rays:
  "createAmbientShadow_ray
     [Vector3 8 18 0, Vector3 12 18 0, Vector3 12 22 4, Vector3 8 22 8] 4
     (Vector3 10 20 2) (Vector2 0 1) u = (2, 6)"
  "createAmbientShadow_ray
     [Vector3 8 18 0, Vector3 12 18 0, Vector3 12 22 4, Vector3 8 22 8] 4
     (Vector3 10 20 2) (Vector2 1 0) u = (2, 2)"
  "createAmbientShadow_ray
     [Vector3 8 18 0, Vector3 12 18 0, Vector3 12 22 4, Vector3 8 22 8] 4
     (Vector3 10 20 2) (Vector2 (- 1) 0) u = (2, 4)"
  by (simp_all add: createAmbientShadow_ray_def calculateIntersection_def
      calculateIntersection_loop.simps intersectEdge_def Let_def smod_int_alt_def)

text \<open>
  Claim C4. On valid input, with a capacity that holds the rings written, and for every
  ray index \<open>i < N\<close>. Let \<open>d k = (sin (2 pi k / N), cos (2 pi k / N))\<close> be the direction
  of ray \<open>k\<close>, and let the first loop record for ray \<open>k\<close> the distance \<open>fst (hit k)\<close>
  and the interpolated height \<open>snd (hit k)\<close>. The intersection point of ray \<open>i\<close> is
  \<open>(px, py) = centroid + d i * distance i\<close>. The normal \<open>(nx, ny)\<close> is the chord from
  \<open>d pre * distance pre\<close> to \<open>d post * distance post\<close> for the neighbours
  \<open>pre = (i - 1) mod N\<close> and \<open>post = (i + 1) mod N\<close>, divided by its length and turned
  by \<open>(x, y) \<mapsto> (- y, x)\<close>, or \<open>(1, 0)\<close> when that length is zero. Then slot \<open>i\<close> of
  the buffer is \<open>(px, py) + (nx, ny) * (height i * heightFactor * geomFactor)\<close> with
  alpha \<open>0\<close>, and slot \<open>N + i\<close> is \<open>(px, py)\<close> itself with alpha
  \<open>1 / (1 + height i * heightFactor)\<close>.
\<close>

theorem createAmbientShadow_rings_vertices:
  assumes "3 \<le> vertexCount" "0 < heightFactor" "0 < SHADOW_RAY_COUNT" "0 < geomFactor"
    and "(if isCasterOpaque then 2 else 3) * nat SHADOW_RAY_COUNT \<le> SHADOW_VERTEX_COUNT"
    and "i < nat SHADOW_RAY_COUNT"
    and "vertexCount = int (length vertices)"
  shows "\<exists>mode b.
           createAmbientShadow SHADOW_RAY_COUNT SHADOW_VERTEX_COUNT isCasterOpaque vertices
             vertexCount centroid3d heightFactor geomFactor shadowVertexBuffer uninit =
             Inr (mode, b) \<and>
           (let d = (\<lambda>k. Vector2 (sin (2 * pi * real k / real_of_int SHADOW_RAY_COUNT))
                                  (cos (2 * pi * real k / real_of_int SHADOW_RAY_COUNT)));
                hit = (\<lambda>k. createAmbientShadow_ray vertices vertexCount centroid3d (d k) (uninit k));
                px = x3 centroid3d + vx (d i) * fst (hit i);
                py = y3 centroid3d + vy (d i) * fst (hit i);
                h = snd (hit i);
                pre = nat ((int i - 1) mod SHADOW_RAY_COUNT);
                post = nat ((int i + 1) mod SHADOW_RAY_COUNT);
                cx = vx (d post) * fst (hit post) - vx (d pre) * fst (hit pre);
                cy = vy (d post) * fst (hit post) - vy (d pre) * fst (hit pre);
                len = sqrt (cx * cx + cy * cy);
                nx = (if len = 0 then 1 else - (cy / len));
                ny = (if len = 0 then 0 else cx / len)
            in b ! i =
                 Some (AlphaVertex (px + nx * (h * heightFactor * geomFactor))
                                   (py + ny * (h * heightFactor * geomFactor)) 0) \<and>
               b ! (nat SHADOW_RAY_COUNT + i) =
                 Some (AlphaVertex px py (1 / (1 + h * heightFactor))))"
proof -
  let ?N = SHADOW_RAY_COUNT
  let ?dir = "calculateRayDirections ?N"
  let ?rd = "rayDistances ?N vertices vertexCount centroid3d uninit"
  let ?rh = "rayHeights ?N vertices vertexCount centroid3d uninit"
  let ?c2 = "Vector2 (x3 centroid3d) (y3 centroid3d)"
  define d where "d = (\<lambda>k. Vector2 (sin (2 * pi * real k / real_of_int ?N))
                                   (cos (2 * pi * real k / real_of_int ?N)))"
  define hit where
    "hit = (\<lambda>k. createAmbientShadow_ray vertices vertexCount centroid3d (d k) (uninit k))"
  define pre where "pre = nat ((int i - 1) mod ?N)"
  define post where "post = nat ((int i + 1) mod ?N)"
  have pre_lt: "pre < nat ?N" and post_lt: "post < nat ?N"
    using neighbour_indices[OF assms(3,6)] by (simp_all add: pre_def post_def)
  have dir: "?dir ! k = d k" if "k < nat ?N" for k
    using that by (simp add: calculateRayDirections_nth d_def)
  have rd: "?rd ! k = fst (hit k)" if "k < nat ?N" for k
    using that by (simp add: rayDistances_nth dir hit_def)
  have rh: "?rh ! k = snd (hit k)" if "k < nat ?N" for k
    using that by (simp add: rayHeights_nth dir hit_def)
  from createAmbientShadow_result[OF assms(1-5), of vertices centroid3d shadowVertexBuffer uninit]
  obtain b where
    run: "createAmbientShadow ?N SHADOW_VERTEX_COUNT isCasterOpaque vertices
             vertexCount centroid3d heightFactor geomFactor shadowVertexBuffer uninit =
             Inr (if isCasterOpaque then kVertexBufferMode_OnePolyRingShadow
                  else kVertexBufferMode_TwoPolyRingShadow, b)" and
    slots: "\<forall>j<SHADOW_VERTEX_COUNT. b ! j =
              (if j < nat ?N then
                 Some (outerVertex ?N ?dir ?rd ?rh ?c2 heightFactor geomFactor j)
               else if j < 2 * nat ?N then
                 Some (innerVertex ?dir ?rd ?rh ?c2 heightFactor (j - nat ?N))
               else if \<not> isCasterOpaque \<and> j < 3 * nat ?N then
                 Some (AlphaVertex (x3 centroid3d) (y3 centroid3d)
                         (1 / (1 + z3 centroid3d * heightFactor)))
               else None)"
    by blast
  have in1: "i < SHADOW_VERTEX_COUNT" and in2: "nat ?N + i < SHADOW_VERTEX_COUNT"
    using assms(5,6) by (auto split: if_splits)
  have outer: "b ! i = Some (outerVertex ?N ?dir ?rd ?rh ?c2 heightFactor geomFactor i)"
    using slots[THEN spec, of i] in1 assms(6) by simp
  have inner: "b ! (nat ?N + i) = Some (innerVertex ?dir ?rd ?rh ?c2 heightFactor i)"
    using slots[THEN spec, of "nat ?N + i"] in2 assms(6) by simp
  have o: "outerVertex ?N ?dir ?rd ?rh ?c2 heightFactor geomFactor i =
     (let cx = vx (d post) * fst (hit post) - vx (d pre) * fst (hit pre);
          cy = vy (d post) * fst (hit post) - vy (d pre) * fst (hit pre);
          len = sqrt (cx * cx + cy * cy);
          nx = (if len = 0 then 1 else - (cy / len));
          ny = (if len = 0 then 0 else cx / len)
      in AlphaVertex
           (x3 centroid3d + vx (d i) * fst (hit i) + nx * (snd (hit i) * heightFactor * geomFactor))
           (y3 centroid3d + vy (d i) * fst (hit i) + ny * (snd (hit i) * heightFactor * geomFactor)) 0)"
    unfolding outerVertex_explicit[OF assms(3,6) pre_lt post_lt pre_def post_def]
      dir[OF pre_lt] dir[OF post_lt] dir[OF assms(6)]
      rd[OF pre_lt] rd[OF post_lt] rd[OF assms(6)] rh[OF assms(6)]
    by (rule refl)
  have n: "innerVertex ?dir ?rd ?rh ?c2 heightFactor i =
     AlphaVertex (x3 centroid3d + vx (d i) * fst (hit i)) (y3 centroid3d + vy (d i) * fst (hit i))
       (1 / (1 + snd (hit i) * heightFactor))"
    unfolding innerVertex_explicit dir[OF assms(6)] rd[OF assms(6)] rh[OF assms(6)]
    by (rule refl)
  note outer' = outer[unfolded o Let_def] and inner' = inner[unfolded n]
  show ?thesis
    unfolding Let_def
    using run outer' inner'
    unfolding d_def hit_def pre_def post_def
    by blast
qed

text \<open>
  A square of side 4 around the centroid \<open>(10, 20)\<close>, four rays,
  \<open>heightFactor = 1/2\<close>, \<open>geomFactor = 3\<close>, ray 0: the ray goes up and meets the top
  edge at distance 2 and height 6; its neighbours are rays 3 and 1, the chord is
  \<open>(4, 0)\<close> and the normal \<open>(0, 1)\<close>; the outer vertex is \<open>(10, 22 + 9)\<close>, the inner one
  \<open>(10, 22)\<close> with alpha \<open>1 / (1 + 3)\<close>.
\<close>

theorem createAmbientShadow_rings_vertices_witness:
  "\<exists>mode b.
     createAmbientShadow 4 8 True
       [Vector3 8 18 0, Vector3 12 18 0, Vector3 12 22 4, Vector3 8 22 8] 4
       (Vector3 10 20 2) (1 / 2) 3 [] (\<lambda>i. \<lparr>outEdgeIndex = 7, outEdgeFraction = 9, outRayDist = 5\<rparr>) =
       Inr (mode, b) \<and>
     b ! 0 = Some (AlphaVertex 10 31 0) \<and> b ! 4 = Some (AlphaVertex 10 22 (1 / 4))"
proof -
  let ?vs = "[Vector3 8 18 0, Vector3 12 18 0, Vector3 12 22 4, Vector3 8 22 8]"
  let ?u = "\<lambda>i::nat. \<lparr>outEdgeIndex = 7, outEdgeFraction = 9, outRayDist = 5\<rparr>"
  have v: "(3::int) \<le> 4" and hf: "(0::real) < 1 / 2" and n: "(0::int) < 4" and gf: "(0::real) < 3"
    by simp_all
  have cap: "(if True then 2 else 3) * nat 4 \<le> (8::nat)" by simp
  have i: "(0::nat) < nat 4" by simp
  have len: "4 = int (length ?vs)" by simp
  have pre: "nat ((int 0 - 1) mod 4) = 3" and post: "nat ((int 0 + 1) mod 4) = 1"
    by simp_all
  have four: "nat 4 + 0 = 4" by simp
  have root: "sqrt ((1 * 2 - - 1 * 2) * (1 * 2 - - 1 * 2) + (0 * 2 - 0 * 2) * (0 * 2 - 0 * 2)) = 4"
  proof -
    have "((1::real) * 2 - - 1 * 2) * (1 * 2 - - 1 * 2) + (0 * 2 - 0 * 2) * (0 * 2 - 0 * 2) = 4\<^sup>2"
      by simp
    then show ?thesis by (simp only: real_sqrt_abs)
  qed
  from createAmbientShadow_rings_vertices [OF v hf n gf cap i len, of "Vector3 10 20 2" "[]" ?u]
  show ?thesis
    unfolding Let_def pre post four quarter_turns offset_square_rays
      Vector3.sel Vector2.sel fst_conv snd_conv root
    by simp
qed

subsection \<open>The centroid ring and the returned mode\<close>

text \<open>
  Claim C5. On valid input, with a capacity that holds the rings written:
  \<^verbatim>\<open>createAmbientShadow\<close> returns \<open>kVertexBufferMode_OnePolyRingShadow\<close> for an opaque
  caster and \<open>kVertexBufferMode_TwoPolyRingShadow\<close> otherwise; in the second case each of
  the slots \<open>2N + i\<close>, \<open>i < N\<close>, holds the centroid's \<open>x\<close> and \<open>y\<close> with alpha
  \<open>1 / (1 + centroid height * heightFactor)\<close>, so any two of them are equal.
\<close>

theorem createAmbientShadow_umbra_ring:
  assumes "3 \<le> vertexCount" "0 < heightFactor" "0 < SHADOW_RAY_COUNT" "0 < geomFactor"
    and "(if isCasterOpaque then 2 else 3) * nat SHADOW_RAY_COUNT \<le> SHADOW_VERTEX_COUNT"
    and "vertexCount = int (length vertices)"
  shows "\<exists>b. createAmbientShadow SHADOW_RAY_COUNT SHADOW_VERTEX_COUNT isCasterOpaque vertices
             vertexCount centroid3d heightFactor geomFactor shadowVertexBuffer uninit =
             Inr (if isCasterOpaque then kVertexBufferMode_OnePolyRingShadow
                  else kVertexBufferMode_TwoPolyRingShadow, b) \<and>
           (\<not> isCasterOpaque \<longrightarrow>
              (\<forall>i<nat SHADOW_RAY_COUNT.
                 b ! (2 * nat SHADOW_RAY_COUNT + i) =
                   Some (AlphaVertex (x3 centroid3d) (y3 centroid3d)
                           (1 / (1 + z3 centroid3d * heightFactor)))) \<and>
              (\<forall>i<nat SHADOW_RAY_COUNT. \<forall>j<nat SHADOW_RAY_COUNT.
                 b ! (2 * nat SHADOW_RAY_COUNT + i) = b ! (2 * nat SHADOW_RAY_COUNT + j)))"
proof -
  from createAmbientShadow_result[OF assms(1-5), of vertices centroid3d shadowVertexBuffer uninit]
  obtain b where
    run: "createAmbientShadow SHADOW_RAY_COUNT SHADOW_VERTEX_COUNT isCasterOpaque vertices
             vertexCount centroid3d heightFactor geomFactor shadowVertexBuffer uninit =
             Inr (if isCasterOpaque then kVertexBufferMode_OnePolyRingShadow
                  else kVertexBufferMode_TwoPolyRingShadow, b)" and
    slots: "\<forall>j<SHADOW_VERTEX_COUNT. b ! j =
              (if j < nat SHADOW_RAY_COUNT then
                 Some (outerVertex SHADOW_RAY_COUNT (calculateRayDirections SHADOW_RAY_COUNT)
                         (rayDistances SHADOW_RAY_COUNT vertices vertexCount centroid3d uninit)
                         (rayHeights SHADOW_RAY_COUNT vertices vertexCount centroid3d uninit)
                         (Vector2 (x3 centroid3d) (y3 centroid3d)) heightFactor geomFactor j)
               else if j < 2 * nat SHADOW_RAY_COUNT then
                 Some (innerVertex (calculateRayDirections SHADOW_RAY_COUNT)
                         (rayDistances SHADOW_RAY_COUNT vertices vertexCount centroid3d uninit)
                         (rayHeights SHADOW_RAY_COUNT vertices vertexCount centroid3d uninit)
                         (Vector2 (x3 centroid3d) (y3 centroid3d)) heightFactor
                         (j - nat SHADOW_RAY_COUNT))
               else if \<not> isCasterOpaque \<and> j < 3 * nat SHADOW_RAY_COUNT then
                 Some (AlphaVertex (x3 centroid3d) (y3 centroid3d)
                         (1 / (1 + z3 centroid3d * heightFactor)))
               else None)"
    by blast
  have third: "b ! (2 * nat SHADOW_RAY_COUNT + i) =
                 Some (AlphaVertex (x3 centroid3d) (y3 centroid3d)
                         (1 / (1 + z3 centroid3d * heightFactor)))"
    if "\<not> isCasterOpaque" "i < nat SHADOW_RAY_COUNT" for i
  proof -
    have "2 * nat SHADOW_RAY_COUNT + i < SHADOW_VERTEX_COUNT"
      using assms(5) that by simp
    from slots[THEN spec, of "2 * nat SHADOW_RAY_COUNT + i"] this that
    show ?thesis by simp
  qed
  from run third show ?thesis by (intro exI[of _ b]) simp
qed

theorem createAmbientShadow_umbra_ring_witness:
  "\<exists>b. createAmbientShadow 4 12 False
       [Vector3 (- 1) (- 1) 0, Vector3 1 (- 1) 0, Vector3 1 1 4, Vector3 (- 1) 1 8] 4
       (Vector3 0 0 2) 1 1 [] (\<lambda>i. \<lparr>outEdgeIndex = 0, outEdgeFraction = 0, outRayDist = 0\<rparr>) =
       Inr (kVertexBufferMode_TwoPolyRingShadow, b) \<and>
     b ! 8 = Some (AlphaVertex 0 0 (1 / 3)) \<and> b ! 11 = Some (AlphaVertex 0 0 (1 / 3)) \<and>
     b ! 8 = b ! 11"
proof -
  let ?vs = "[Vector3 (- 1) (- 1) 0, Vector3 1 (- 1) 0, Vector3 1 1 4, Vector3 (- 1) 1 8]"
  let ?u = "\<lambda>i::nat. \<lparr>outEdgeIndex = 0, outEdgeFraction = 0, outRayDist = 0\<rparr>"
  have cap: "(if False then 2 else 3) * nat 4 \<le> (12::nat)" by simp
  have len: "4 = int (length ?vs)" by simp
  from createAmbientShadow_umbra_ring [of 4 1 4 1 False 12, OF _ _ _ _ cap len,
      of "Vector3 0 0 2" "[]" ?u]
  obtain b where
    run: "createAmbientShadow 4 12 False ?vs 4 (Vector3 0 0 2) 1 1 [] ?u =
            Inr (kVertexBufferMode_TwoPolyRingShadow, b)" and
    ring: "\<forall>i<nat 4. b ! (2 * nat 4 + i) = Some (AlphaVertex 0 0 (1 / (1 + 2 * 1)))"
    by auto
  have "b ! 8 = Some (AlphaVertex 0 0 (1 / 3))" using ring[THEN spec, of 0] by simp
  moreover have "b ! 11 = Some (AlphaVertex 0 0 (1 / 3))" using ring[THEN spec, of 3] by simp
  ultimately show ?thesis using run by (intro exI[of _ b]) simp
qed

subsection \<open>The normal of a ray\<close>

text \<open>
  Claim C6. For a ray index \<open>i < N\<close>, \<^verbatim>\<open>calculateNormal\<close> takes the chord from the
  intersection point of ray \<open>(i - 1) mod N\<close> to the one of ray \<open>(i + 1) mod N\<close>; when its
  length is not zero the normal is the normalised chord turned by \<open>(x, y) \<mapsto> (- y, x)\<close>,
  and when it is zero the normal stays what the caller passed. In that second case
  \<^verbatim>\<open>createAmbientShadow\<close>, which passes \<open>(1, 0)\<close>, still stores both ring vertices of the
  ray: the outer one is the intersection point moved along \<open>(1, 0)\<close>.
\<close>

theorem calculateNormal_chord:
  assumes "3 \<le> vertexCount" "0 < heightFactor" "0 < SHADOW_RAY_COUNT" "0 < geomFactor"
    and "(if isCasterOpaque then 2 else 3) * nat SHADOW_RAY_COUNT \<le> SHADOW_VERTEX_COUNT"
    and "i < nat SHADOW_RAY_COUNT"
    and "vertexCount = int (length vertices)"
  shows "(\<forall>dir rayDist normal centroid2d.
            calculateNormal SHADOW_RAY_COUNT (int i) dir rayDist normal =
              (let a = intersection dir rayDist centroid2d (nat ((int i - 1) mod SHADOW_RAY_COUNT));
                   b = intersection dir rayDist centroid2d (nat ((int i + 1) mod SHADOW_RAY_COUNT));
                   chord = v2_sub b a
               in if v2_length chord = 0 then normal
                  else Vector2 (- vy (v2_normalize chord)) (vx (v2_normalize chord)))) \<and>
         (let dir = calculateRayDirections SHADOW_RAY_COUNT;
              rayDist = rayDistances SHADOW_RAY_COUNT vertices vertexCount centroid3d uninit;
              rayHeight = rayHeights SHADOW_RAY_COUNT vertices vertexCount centroid3d uninit;
              centroid2d = Vector2 (x3 centroid3d) (y3 centroid3d);
              a = intersection dir rayDist centroid2d (nat ((int i - 1) mod SHADOW_RAY_COUNT));
              b = intersection dir rayDist centroid2d (nat ((int i + 1) mod SHADOW_RAY_COUNT));
              p = intersection dir rayDist centroid2d i
          in v2_length (v2_sub b a) = 0 \<longrightarrow>
             (\<exists>mode buf.
                createAmbientShadow SHADOW_RAY_COUNT SHADOW_VERTEX_COUNT isCasterOpaque vertices
                  vertexCount centroid3d heightFactor geomFactor shadowVertexBuffer uninit =
                  Inr (mode, buf) \<and>
                buf ! i =
                  Some (AlphaVertex (vx p + 1 * (rayHeight ! i * heightFactor * geomFactor))
                                    (vy p + 0 * (rayHeight ! i * heightFactor * geomFactor)) 0) \<and>
                buf ! (nat SHADOW_RAY_COUNT + i) =
                  Some (AlphaVertex (vx p) (vy p) (1 / (1 + rayHeight ! i * heightFactor)))))"
proof -
  let ?dir = "calculateRayDirections SHADOW_RAY_COUNT"
  let ?rd = "rayDistances SHADOW_RAY_COUNT vertices vertexCount centroid3d uninit"
  let ?rh = "rayHeights SHADOW_RAY_COUNT vertices vertexCount centroid3d uninit"
  let ?c2 = "Vector2 (x3 centroid3d) (y3 centroid3d)"
  have A: "calculateNormal SHADOW_RAY_COUNT (int i) dir rayDist normal =
              (let a = intersection dir rayDist centroid2d (nat ((int i - 1) mod SHADOW_RAY_COUNT));
                   b = intersection dir rayDist centroid2d (nat ((int i + 1) mod SHADOW_RAY_COUNT));
                   chord = v2_sub b a
               in if v2_length chord = 0 then normal
                  else Vector2 (- vy (v2_normalize chord)) (vx (v2_normalize chord)))"
    for dir rayDist normal centroid2d
    by (rule calculateNormal_eq[OF assms(3,6)])
  from createAmbientShadow_result[OF assms(1-5), of vertices centroid3d shadowVertexBuffer uninit]
  obtain b where
    run: "createAmbientShadow SHADOW_RAY_COUNT SHADOW_VERTEX_COUNT isCasterOpaque vertices
             vertexCount centroid3d heightFactor geomFactor shadowVertexBuffer uninit =
             Inr (if isCasterOpaque then kVertexBufferMode_OnePolyRingShadow
                  else kVertexBufferMode_TwoPolyRingShadow, b)" and
    slots: "\<forall>j<SHADOW_VERTEX_COUNT. b ! j =
              (if j < nat SHADOW_RAY_COUNT then
                 Some (outerVertex SHADOW_RAY_COUNT ?dir ?rd ?rh ?c2 heightFactor geomFactor j)
               else if j < 2 * nat SHADOW_RAY_COUNT then
                 Some (innerVertex ?dir ?rd ?rh ?c2 heightFactor (j - nat SHADOW_RAY_COUNT))
               else if \<not> isCasterOpaque \<and> j < 3 * nat SHADOW_RAY_COUNT then
                 Some (AlphaVertex (x3 centroid3d) (y3 centroid3d)
                         (1 / (1 + z3 centroid3d * heightFactor)))
               else None)"
    by blast
  have in1: "i < SHADOW_VERTEX_COUNT" and in2: "nat SHADOW_RAY_COUNT + i < SHADOW_VERTEX_COUNT"
    using assms(5,6) by (auto split: if_splits)
  have outer: "b ! i =
      Some (outerVertex SHADOW_RAY_COUNT ?dir ?rd ?rh ?c2 heightFactor geomFactor i)"
    using slots[THEN spec, of i] in1 assms(6) by simp
  have inner: "b ! (nat SHADOW_RAY_COUNT + i) =
      Some (innerVertex ?dir ?rd ?rh ?c2 heightFactor i)"
    using slots[THEN spec, of "nat SHADOW_RAY_COUNT + i"] in2 assms(6) by simp
  have B: "\<exists>mode buf.
                createAmbientShadow SHADOW_RAY_COUNT SHADOW_VERTEX_COUNT isCasterOpaque vertices
                  vertexCount centroid3d heightFactor geomFactor shadowVertexBuffer uninit =
                  Inr (mode, buf) \<and>
                buf ! i =
                  Some (AlphaVertex
                     (vx (intersection ?dir ?rd ?c2 i) + 1 * (?rh ! i * heightFactor * geomFactor))
                     (vy (intersection ?dir ?rd ?c2 i) + 0 * (?rh ! i * heightFactor * geomFactor)) 0) \<and>
                buf ! (nat SHADOW_RAY_COUNT + i) =
                  Some (AlphaVertex (vx (intersection ?dir ?rd ?c2 i)) (vy (intersection ?dir ?rd ?c2 i))
                     (1 / (1 + ?rh ! i * heightFactor)))"
    if zero: "v2_length (v2_sub
                 (intersection ?dir ?rd ?c2 (nat ((int i + 1) mod SHADOW_RAY_COUNT)))
                 (intersection ?dir ?rd ?c2 (nat ((int i - 1) mod SHADOW_RAY_COUNT)))) = 0"
  proof -
    have "calculateNormal SHADOW_RAY_COUNT (int i) ?dir ?rd (Vector2 1 0) = Vector2 1 0"
      unfolding A[of ?dir ?rd "Vector2 1 0" ?c2] using zero by (simp add: Let_def)
    then have "outerVertex SHADOW_RAY_COUNT ?dir ?rd ?rh ?c2 heightFactor geomFactor i =
       AlphaVertex
         (vx (intersection ?dir ?rd ?c2 i) + 1 * (?rh ! i * heightFactor * geomFactor))
         (vy (intersection ?dir ?rd ?c2 i) + 0 * (?rh ! i * heightFactor * geomFactor)) 0"
      by (simp add: outerVertex_def Let_def)
    with run outer inner show ?thesis
      by (simp add: innerVertex_def opacity_def Let_def)
  qed
  show ?thesis
    unfolding Let_def using A[unfolded Let_def] B by blast
qed

theorem calculateNormal_chord_witness:
  "v2_length (v2_sub
      (intersection (calculateRayDirections 2)
         (rayDistances 2 [Vector3 (- 1) (- 1) 0, Vector3 1 (- 1) 0, Vector3 1 1 4, Vector3 (- 1) 1 8] 4
            (Vector3 0 0 2) (\<lambda>i. \<lparr>outEdgeIndex = 0, outEdgeFraction = 0, outRayDist = 0\<rparr>))
         (Vector2 0 0) 1)
      (intersection (calculateRayDirections 2)
         (rayDistances 2 [Vector3 (- 1) (- 1) 0, Vector3 1 (- 1) 0, Vector3 1 1 4, Vector3 (- 1) 1 8] 4
            (Vector3 0 0 2) (\<lambda>i. \<lparr>outEdgeIndex = 0, outEdgeFraction = 0, outRayDist = 0\<rparr>))
         (Vector2 0 0) 1)) = 0 \<and>
   calculateNormal 2 0 (calculateRayDirections 2)
     (rayDistances 2 [Vector3 (- 1) (- 1) 0, Vector3 1 (- 1) 0, Vector3 1 1 4, Vector3 (- 1) 1 8] 4
        (Vector3 0 0 2) (\<lambda>i. \<lparr>outEdgeIndex = 0, outEdgeFraction = 0, outRayDist = 0\<rparr>))
     (Vector2 1 0) = Vector2 1 0 \<and>
   (\<exists>mode buf.
      createAmbientShadow 2 4 True
        [Vector3 (- 1) (- 1) 0, Vector3 1 (- 1) 0, Vector3 1 1 4, Vector3 (- 1) 1 8] 4
        (Vector3 0 0 2) 1 1 [] (\<lambda>i. \<lparr>outEdgeIndex = 0, outEdgeFraction = 0, outRayDist = 0\<rparr>) =
        Inr (mode, buf) \<and>
      buf ! 0 = Some (AlphaVertex 6 1 0) \<and> buf ! 2 = Some (AlphaVertex 0 1 (1 / 7)))"
proof -
  let ?vs = "[Vector3 (- 1) (- 1) 0, Vector3 1 (- 1) 0, Vector3 1 1 4, Vector3 (- 1) 1 8]"
  let ?u = "\<lambda>i::nat. \<lparr>outEdgeIndex = 0, outEdgeFraction = 0, outRayDist = 0\<rparr>"
  let ?dir = "calculateRayDirections 2"
  let ?rd = "rayDistances 2 ?vs 4 (Vector3 0 0 2) ?u"
  have cap: "(if True then 2 else 3) * nat 2 \<le> (4::nat)" by simp
  have i: "(0::nat) < nat 2" by simp
  have pre: "nat ((int 0 - 1) mod 2) = 1" and post: "nat ((int 0 + 1) mod 2) = 1" by simp_all
  have zero: "v2_length (v2_sub (intersection ?dir ?rd (Vector2 0 0) 1)
                                (intersection ?dir ?rd (Vector2 0 0) 1)) = 0"
    by (simp add: v2_sub_def v2_length_def)
  have rd0: "?rd ! 0 = 1"
    by (simp add: rayDistances_nth directions_of_two square_rays)
  have rh0: "rayHeights 2 ?vs 4 (Vector3 0 0 2) ?u ! 0 = 6"
    by (simp add: rayHeights_nth directions_of_two square_rays)
  have p: "intersection ?dir ?rd (Vector2 0 0) 0 = Vector2 0 1"
    by (simp add: intersection_def directions_of_two rd0 v2_add_def v2_scale_def)
  have len: "4 = int (length ?vs)" by simp
  from calculateNormal_chord [of 4 1 2 1 True 4 0, OF _ _ _ _ cap i len,
      of "Vector3 0 0 2" ?u "[]"]
  have A: "\<forall>dir rayDist normal centroid2d.
            calculateNormal 2 (int 0) dir rayDist normal =
              (let a = intersection dir rayDist centroid2d (nat ((int 0 - 1) mod 2));
                   b = intersection dir rayDist centroid2d (nat ((int 0 + 1) mod 2));
                   chord = v2_sub b a
               in if v2_length chord = 0 then normal
                  else Vector2 (- vy (v2_normalize chord)) (vx (v2_normalize chord)))"
    and B: "v2_length (v2_sub (intersection ?dir ?rd (Vector2 0 0) (nat ((int 0 + 1) mod 2)))
                              (intersection ?dir ?rd (Vector2 0 0) (nat ((int 0 - 1) mod 2)))) = 0 \<longrightarrow>
       (\<exists>mode buf.
          createAmbientShadow 2 4 True ?vs 4 (Vector3 0 0 2) 1 1 [] ?u = Inr (mode, buf) \<and>
          buf ! 0 =
            Some (AlphaVertex
                (vx (intersection ?dir ?rd (Vector2 0 0) 0) +
                   1 * (rayHeights 2 ?vs 4 (Vector3 0 0 2) ?u ! 0 * 1 * 1))
                (vy (intersection ?dir ?rd (Vector2 0 0) 0) +
                   0 * (rayHeights 2 ?vs 4 (Vector3 0 0 2) ?u ! 0 * 1 * 1)) 0) \<and>
          buf ! (nat 2 + 0) =
            Some (AlphaVertex (vx (intersection ?dir ?rd (Vector2 0 0) 0))
                   (vy (intersection ?dir ?rd (Vector2 0 0) 0))
                   (1 / (1 + rayHeights 2 ?vs 4 (Vector3 0 0 2) ?u ! 0 * 1))))"
    unfolding Let_def Vector3.sel by simp_all
  have n: "calculateNormal 2 0 ?dir ?rd (Vector2 1 0) = Vector2 1 0"
    using A[THEN spec, THEN spec, THEN spec, THEN spec, of ?dir ?rd "Vector2 1 0" "Vector2 0 0"]
      zero
    unfolding pre post by (simp add: Let_def)
  from B zero have "\<exists>mode buf.
          createAmbientShadow 2 4 True ?vs 4 (Vector3 0 0 2) 1 1 [] ?u = Inr (mode, buf) \<and>
          buf ! 0 = Some (AlphaVertex 6 1 0) \<and> buf ! 2 = Some (AlphaVertex 0 1 (1 / 7))"
    unfolding pre post p rh0 by simp
  with zero n show ?thesis by blast
qed

subsection \<open>A ray that no edge accepts\<close>

text \<open>
  Claim C8 says that such a ray is given edge index \<open>0\<close>. The source resets
  \<^verbatim>\<open>edgeIndex\<close> to \<open>0\<close> only when it is out of range, and on such a ray \<^verbatim>\<open>edgeIndex\<close> is
  the uninitialised local that \<^verbatim>\<open>calculateIntersection\<close> left alone. The triangle below
  lies to the right of the ray from the origin in direction \<open>(0, 1)\<close>, so none of its three
  edges is accepted; with the local holding \<open>1\<close> the height of the ray is taken on edge \<open>1\<close>
  (\<open>5 + 1/2 * (7 - 5) = 6\<close>), not on edge \<open>0\<close> (\<open>0 + 1/2 * (5 - 0) = 5/2\<close>), and the inner
  alpha stored is \<open>1/7\<close>. The call returns a buffer all the same.
\<close>

theorem createAmbientShadow_miss_reads_uninitialised_edge:
  "edgeHit [Vector3 1 1 0, Vector3 2 1 5, Vector3 1 2 7] 3 (Vector3 0 0 0)
     (calculateRayDirections 1 ! 0) 0 = None \<and>
   edgeHit [Vector3 1 1 0, Vector3 2 1 5, Vector3 1 2 7] 3 (Vector3 0 0 0)
     (calculateRayDirections 1 ! 0) 1 = None \<and>
   edgeHit [Vector3 1 1 0, Vector3 2 1 5, Vector3 1 2 7] 3 (Vector3 0 0 0)
     (calculateRayDirections 1 ! 0) 2 = None \<and>
   createAmbientShadow_ray [Vector3 1 1 0, Vector3 2 1 5, Vector3 1 2 7] 3 (Vector3 0 0 0)
     (calculateRayDirections 1 ! 0)
     \<lparr>outEdgeIndex = 1, outEdgeFraction = 1 / 2, outRayDist = 1\<rparr> = (1, 6) \<and>
   createAmbientShadow_ray [Vector3 1 1 0, Vector3 2 1 5, Vector3 1 2 7] 3 (Vector3 0 0 0)
     (calculateRayDirections 1 ! 0)
     \<lparr>outEdgeIndex = 0, outEdgeFraction = 1 / 2, outRayDist = 1\<rparr> = (1, 5 / 2) \<and>
   createAmbientShadow 1 3 True [Vector3 1 1 0, Vector3 2 1 5, Vector3 1 2 7] 3 (Vector3 0 0 0)
     1 1 [] (\<lambda>i. \<lparr>outEdgeIndex = 1, outEdgeFraction = 1 / 2, outRayDist = 1\<rparr>) =
     Inr (kVertexBufferMode_OnePolyRingShadow,
          [Some (AlphaVertex 6 1 0), Some (AlphaVertex 0 1 (1 / 7)), None])"
proof -
  let ?vs = "[Vector3 1 1 0, Vector3 2 1 5, Vector3 1 2 7]"
  let ?u = "\<lambda>i::nat. \<lparr>outEdgeIndex = 1, outEdgeFraction = 1 / 2, outRayDist = 1\<rparr>"
  have e: "edgeHit ?vs 3 (Vector3 0 0 0) (Vector2 0 1) 0 = None"
    "edgeHit ?vs 3 (Vector3 0 0 0) (Vector2 0 1) 1 = None"
    "edgeHit ?vs 3 (Vector3 0 0 0) (Vector2 0 1) 2 = None"
    by (simp_all add: edgeHit_def edgeFrom_def intersectEdge_def)
  have r1: "createAmbientShadow_ray ?vs 3 (Vector3 0 0 0) (Vector2 0 1)
     \<lparr>outEdgeIndex = 1, outEdgeFraction = 1 / 2, outRayDist = 1\<rparr> = (1, 6)"
    by (simp add: createAmbientShadow_ray_def calculateIntersection_def
      calculateIntersection_loop.simps intersectEdge_def Let_def smod_int_alt_def)
  have r0: "createAmbientShadow_ray ?vs 3 (Vector3 0 0 0) (Vector2 0 1)
     \<lparr>outEdgeIndex = 0, outEdgeFraction = 1 / 2, outRayDist = 1\<rparr> = (1, 5 / 2)"
    by (simp add: createAmbientShadow_ray_def calculateIntersection_def
      calculateIntersection_loop.simps intersectEdge_def Let_def smod_int_alt_def)
  have rd: "rayDistances 1 ?vs 3 (Vector3 0 0 0) ?u = [1]"
    and rh: "rayHeights 1 ?vs 3 (Vector3 0 0 0) ?u = [6]"
    by (simp_all add: rayDistances_def rayHeights_def rayHits_def directions_of_one r1)
  have dir: "calculateRayDirections 1 = [Vector2 0 1]"
    by (simp add: calculateRayDirections_def)
  have outer: "outerVertex 1 [Vector2 0 1] [1] [6] (Vector2 0 0) 1 1 0 = AlphaVertex 6 1 0"
    by (simp add: outerVertex_def calculateNormal_def intersection_def Let_def
        smod_int_alt_def v2_sub_def v2_scale_def v2_add_def v2_length_def)
  have inner: "innerVertex [Vector2 0 1] [1] [6] (Vector2 0 0) 1 0 = AlphaVertex 0 1 (1 / 7)"
    by (simp add: innerVertex_def intersection_def opacity_def Let_def v2_scale_def v2_add_def)
  have rings: "createAmbientShadow_rings 1 [Vector2 0 1] [1] [6] (Vector2 0 0) 1 1 0 (alloc 3) =
      Inr [Some (AlphaVertex 6 1 0), Some (AlphaVertex 0 1 (1 / 7)), None]"
    by (simp add: createAmbientShadow_rings.simps outer inner store_def alloc_def
        eval_nat_numeral)
  have run: "createAmbientShadow 1 3 True ?vs 3 (Vector3 0 0 0) 1 1 [] ?u =
     Inr (kVertexBufferMode_OnePolyRingShadow,
          [Some (AlphaVertex 6 1 0), Some (AlphaVertex 0 1 (1 / 7)), None])"
    by (simp add: createAmbientShadow_valid_unfold rd rh dir rings)
  show ?thesis
    unfolding directions_of_one using e r1 r0 run by simp
qed

end
